theory Spec2Isabelle
  imports Complex_Main "HOL-Library.AList" "HOL-Library.Multiset" "HOL-Library.Log_Nat"
begin

section \<open>Numbers\<close>

text \<open>
  A JavaScript number is an IEEE 754 double: a finite value, one of the two
  infinities, or \<^verbatim>\<open>NaN\<close>. A finite value is held as the rational it denotes; the sign
  of zero is not kept.
\<close>

datatype number = Finite rat | Infinity | Neg_Infinity | NaN

text \<open>
  Rounding of an exact result to the nearest double, ties to the even significand.
  \<open>binade x\<close> is the \<open>e\<close> with \<open>2 ^ e \<le> \<bar>x\<bar> < 2 ^ (e + 1)\<close>; the doubles of that binade
  are the multiples of \<open>2 ^ (e - 52)\<close>, and below \<open>2 ^ - 1022\<close> the multiples of
  \<open>2 ^ - 1074\<close>. A result that rounds to \<open>2 ^ 1024\<close> or beyond is an infinity.
\<close>

definition round_half_even :: "rat \<Rightarrow> int" where
  "round_half_even y =
     (let f = \<lfloor>y\<rfloor>; r = y - of_int f
      in if r < 1 / 2 then f
         else if 1 / 2 < r then f + 1
         else if even f then f else f + 1)"

definition binade :: "rat \<Rightarrow> int" where
  "binade x =
     (if 1 \<le> \<bar>x\<bar> then bitlen \<lfloor>\<bar>x\<bar>\<rfloor> - 1
      else let k = bitlen \<lfloor>1 / \<bar>x\<bar>\<rfloor> - 1
           in if \<bar>x\<bar> * 2 ^ nat k = 1 then - k else - k - 1)"

definition fl :: "rat \<Rightarrow> rat" where
  "fl x =
     (if x = 0 then 0
      else let q = 2 powi (max (binade x) (- 1022) - 52)
           in of_int (round_half_even (x / q)) * q)"

text \<open>
  A rational below \<open>2 ^ 1024\<close> in magnitude is a double exactly when the rounding
  leaves it as it is.
\<close>

definition representable :: "rat \<Rightarrow> bool" where
  "representable x \<longleftrightarrow> fl x = x"

definition round_number :: "rat \<Rightarrow> number" where
  "round_number x =
     (let y = fl x
      in if 2 ^ 1024 \<le> \<bar>y\<bar> then (if 0 < y then Infinity else Neg_Infinity)
         else Finite y)"

text \<open>The operators \<^verbatim>\<open>+\<close>, unary and binary \<^verbatim>\<open>-\<close>, and \<^verbatim>\<open>*\<close> on numbers.\<close>

fun js_add :: "number \<Rightarrow> number \<Rightarrow> number" where
  "js_add (Finite a) (Finite b) = round_number (a + b)"
| "js_add NaN _ = NaN"
| "js_add _ NaN = NaN"
| "js_add Infinity Neg_Infinity = NaN"
| "js_add Neg_Infinity Infinity = NaN"
| "js_add Infinity _ = Infinity"
| "js_add _ Infinity = Infinity"
| "js_add Neg_Infinity _ = Neg_Infinity"
| "js_add _ Neg_Infinity = Neg_Infinity"

fun js_neg :: "number \<Rightarrow> number" where
  "js_neg (Finite a) = Finite (- a)"
| "js_neg Infinity = Neg_Infinity"
| "js_neg Neg_Infinity = Infinity"
| "js_neg NaN = NaN"

definition js_sub :: "number \<Rightarrow> number \<Rightarrow> number" where
  "js_sub a b = js_add a (js_neg b)"

fun js_mul :: "number \<Rightarrow> number \<Rightarrow> number" where
  "js_mul (Finite a) (Finite b) = round_number (a * b)"
| "js_mul NaN _ = NaN"
| "js_mul _ NaN = NaN"
| "js_mul Infinity (Finite b) =
     (if b = 0 then NaN else if 0 < b then Infinity else Neg_Infinity)"
| "js_mul Neg_Infinity (Finite b) =
     (if b = 0 then NaN else if 0 < b then Neg_Infinity else Infinity)"
| "js_mul (Finite a) Infinity =
     (if a = 0 then NaN else if 0 < a then Infinity else Neg_Infinity)"
| "js_mul (Finite a) Neg_Infinity =
     (if a = 0 then NaN else if 0 < a then Neg_Infinity else Infinity)"
| "js_mul Infinity Infinity = Infinity"
| "js_mul Neg_Infinity Neg_Infinity = Infinity"
| "js_mul Infinity Neg_Infinity = Neg_Infinity"
| "js_mul Neg_Infinity Infinity = Neg_Infinity"

text \<open>
  \<^verbatim>\<open>Math.floor\<close> and \<^verbatim>\<open>Math.round\<close> return the integer exactly; \<^verbatim>\<open>Math.round\<close> takes a half
  upwards. \<open>or_zero\<close> is \<^verbatim>\<open>x || 0\<close> on a number: \<^verbatim>\<open>NaN\<close> and zero are the falsy numbers.
\<close>

fun Math_floor :: "number \<Rightarrow> number" where
  "Math_floor (Finite x) = Finite (of_int \<lfloor>x\<rfloor>)"
| "Math_floor x = x"

fun Math_round :: "number \<Rightarrow> number" where
  "Math_round (Finite x) = Finite (of_int \<lfloor>x + 1 / 2\<rfloor>)"
| "Math_round x = x"

fun or_zero :: "number \<Rightarrow> number" where
  "or_zero NaN = Finite 0"
| "or_zero x = x"

text \<open>
  The values \<^verbatim>\<open>parseInt(string) || 0\<close> can leave in the state: an integer or an
  infinity (\<^verbatim>\<open>parseInt\<close> of a digit string beyond the range of the doubles).
\<close>

datatype whole = Whole_number int | Whole_Infinity | Whole_Neg_Infinity

text \<open>
  \<^verbatim>\<open>parseInt\<close> applied to such a number converts it to a string first. Below \<open>10 ^ 21\<close>
  in magnitude the string is the decimal numeral of the integer and \<^verbatim>\<open>parseInt\<close> reads
  it back. From \<open>10 ^ 21\<close> on the string is in exponent notation
  (\<^verbatim>\<open>1e+21\<close>, \<^verbatim>\<open>1.2345e+30\<close>) and \<^verbatim>\<open>parseInt\<close> reads the digits before the point or the
  \<^verbatim>\<open>e\<close>: the leading digit of the shortest decimal numeral \<open>s * 10 ^ p\<close> that rounds
  to the number. \<open>leading_digit_from\<close> tries the lengths \<open>k\<close> of \<open>s\<close> in turn, with the
  two candidates next to the number for each; \<open>D\<close> is the number of decimal digits
  of the number. Where both candidates of the shortest length round to the number
  they have the same leading digit. The string of an infinity is \<^verbatim>\<open>Infinity\<close>, which
  \<^verbatim>\<open>parseInt\<close> reads as \<^verbatim>\<open>NaN\<close>.
\<close>

function decimal_digits :: "int \<Rightarrow> nat" where
  "decimal_digits n = (if n \<le> 0 then 0 else Suc (decimal_digits (n div 10)))"
  by auto
termination
  by (relation "measure nat") auto

primrec leading_digit_from :: "int \<Rightarrow> nat \<Rightarrow> nat list \<Rightarrow> int" where
  "leading_digit_from n D [] = n div 10 ^ (D - 1)"
| "leading_digit_from n D (k # ks) =
     (if fl (of_int (n div 10 ^ (D - k) * 10 ^ (D - k))) = of_int n
      then n div 10 ^ (D - k) div 10 ^ (k - 1)
      else if fl (of_int ((n div 10 ^ (D - k) + 1) * 10 ^ (D - k))) = of_int n
      then (if n div 10 ^ (D - k) + 1 = 10 ^ k then 1
            else (n div 10 ^ (D - k) + 1) div 10 ^ (k - 1))
      else leading_digit_from n D ks)"

definition leading_digit :: "int \<Rightarrow> int" where
  "leading_digit n = leading_digit_from n (decimal_digits n) [1..<18]"

fun parseInt_number :: "whole \<Rightarrow> number" where
  "parseInt_number (Whole_number n) =
     (if \<bar>n\<bar> < 10 ^ 21 then Finite (of_int n)
      else Finite (of_int (sgn n * leading_digit \<bar>n\<bar>)))"
| "parseInt_number Whole_Infinity = NaN"
| "parseInt_number Whole_Neg_Infinity = NaN"

subsection \<open>Properties of the rounding\<close>

lemma round_half_even_of_int: "round_half_even (of_int z) = z"
  by (simp add: round_half_even_def)

lemma binade_of_int:
  assumes "n \<noteq> 0"
  shows "binade (of_int n) = bitlen \<bar>n\<bar> - 1"
proof -
  have "(1::rat) \<le> \<bar>of_int n\<bar>" using assms
    by (metis abs_ge_zero of_int_abs of_int_1_le_iff zero_less_abs_iff
        int_one_le_iff_zero_less)
  moreover have "\<lfloor>\<bar>of_int n :: rat\<bar>\<rfloor> = \<bar>n\<bar>"
    by (metis of_int_abs floor_of_int)
  ultimately show ?thesis by (simp add: binade_def)
qed

text \<open>Every integer below \<open>2 ^ 53\<close> in magnitude is a double.\<close>

lemma fl_of_int:
  assumes "\<bar>n\<bar> < 2 ^ 53"
  shows "fl (of_int n) = of_int n"
proof (cases "n = 0")
  case True
  then show ?thesis by (simp add: fl_def)
next
  case False
  define e where "e = bitlen \<bar>n\<bar> - 1"
  have pos: "0 < \<bar>n\<bar>" using False by simp
  have "bitlen \<bar>n\<bar> \<noteq> 0" using pos by (simp add: bitlen_eq_zero_iff)
  then have e0: "0 \<le> e" using bitlen_nonneg [of "\<bar>n\<bar>"] by (simp add: e_def)
  have "bitlen \<bar>n\<bar> \<le> 53" using assms by (simp add: bitlen_le_iff_power)
  then have e52: "e \<le> 52" by (simp add: e_def)
  define k where "k = nat (52 - e)"
  have ek: "max e (- 1022) - 52 = - int k" using e0 e52 by (simp add: k_def)
  have q: "(2::rat) powi (max e (- 1022) - 52) = inverse (2 ^ k)"
    by (simp add: ek power_int_minus)
  have "of_int n / inverse ((2::rat) ^ k) = of_int (n * 2 ^ k)"
    by (simp add: divide_inverse)
  then have "fl (of_int n) = of_int (n * 2 ^ k) * inverse (2 ^ k)"
    using False binade_of_int [OF False] q
    by (simp add: fl_def e_def round_half_even_of_int del: of_int_mult)
  then show ?thesis by simp
qed

lemma representable_of_int: "\<bar>n\<bar> < 2 ^ 53 \<Longrightarrow> representable (of_int n)"
  by (simp add: representable_def fl_of_int)

lemma representable_0: "representable 0"
  by (simp add: representable_def fl_def)

lemma representable_half: "representable (1 / 2)"
  unfolding representable_def by code_simp

lemma representable_30: "representable 30"
  using representable_of_int [of 30] by simp

lemma round_number_exact:
  assumes "representable x" and "\<bar>x\<bar> < 2 ^ 1024"
  shows "round_number x = Finite x"
  using assms by (simp add: round_number_def representable_def)

declare decimal_digits.simps [simp del]




section \<open>Data model\<close>

text \<open>
  The records follow the JSON shapes the components read and write.
  Two source names cannot be used as they are: the assignee field \<^verbatim>\<open>id\<close> is
  \<open>id_a\<close> (\<open>id\<close> is the identity function of HOL) and the template field
  \<^verbatim>\<open>_id\<close> is \<open>id_t\<close> (an identifier cannot start with an underscore).

  An assignee as the search endpoint returns it and as a template stores it.
\<close>

record assignee =
  id_a :: string
  name :: string
  type :: string

text \<open>
  The task modal stores assignees with two further properties; \<^verbatim>\<open>null\<close> is \<open>None\<close>.
\<close>

record task_assignee = assignee +
  client_id :: "string option"
  employee_id :: "string option"

text \<open>
  A template without its \<^verbatim>\<open>_id\<close>: the shape of \<^verbatim>\<open>formData\<close> and of the body of a
  create request. \<open>assignees\<close> is optional because the code reads it with \<^verbatim>\<open>?.\<close>;
  \<open>other\<close> holds every further property the server sends, which the spread
  operator copies along.
\<close>

record template_draft =
  title :: string
  description :: string
  frequency :: string
  priority :: string
  job_type :: string
  assignees :: "assignee list option"
  is_active :: bool
  other :: "(string \<times> string) list"

record template = template_draft +
  id_t :: string

text \<open>
  A task as the task modal receives it. Its fields \<^verbatim>\<open>_id\<close>, \<^verbatim>\<open>title\<close> and \<^verbatim>\<open>assignees\<close> carry
  the suffix \<open>_task\<close> here, since a template has fields of the same names;
  \<open>other_task\<close> holds the remaining properties.
\<close>

record task =
  id_task :: string
  title_task :: string
  assignees_task :: "task_assignee list option"
  status :: string
  completion_notes :: "string option"
  other_task :: "(string \<times> string) list"

text \<open>
  \<^verbatim>\<open>completionData\<close> of the task modal. The change handlers store
  \<^verbatim>\<open>parseFloat(e.target.value) || 0\<close> and \<^verbatim>\<open>parseInt(e.target.value) || 0\<close>: the hours are a
  number other than \<^verbatim>\<open>NaN\<close>, the minutes an integer or an infinity. The field \<^verbatim>\<open>notes\<close>
  is \<open>notes_cd\<close> (\<open>notes\<close> is a keyword).
\<close>

record completionData =
  hours :: number
  minutes :: whole
  notes_cd :: string

text \<open>
  The body of the timesheet request. The fields that share a name with a field
  above carry the suffix \<open>_entry\<close>.
\<close>

record timesheet_entry =
  date :: string
  client_id_entry :: string
  hours_entry :: number
  minutes_entry :: number
  type_entry :: string
  item :: string
  description_entry :: string
  category :: string

section \<open>Assignee selection\<close>

text \<open>
  \<^verbatim>\<open>handleSelectAssignee\<close> of both template components
  (TaskTemplate/TaskTemplate.js line 127, TaskManager/TaskTemplate.js line 95):
  \<^verbatim>\<open>
  if (!selectedAssignees.find(a => a.id === assignee.id)) {
    const newAssignees = [...selectedAssignees, assignee];
    setSelectedAssignees(newAssignees); ...
  }
  \<close>
  The function returns the next value of the selection list.
\<close>

definition handleSelectAssignee ::
  "'a assignee_scheme list \<Rightarrow> 'a assignee_scheme \<Rightarrow> 'a assignee_scheme list" where
  "handleSelectAssignee selectedAssignees assignee =
     (case find (\<lambda>a. id_a a = id_a assignee) selectedAssignees of
        None \<Rightarrow> selectedAssignees @ [assignee]
      | Some _ \<Rightarrow> selectedAssignees)"

text \<open>
  \<^verbatim>\<open>handleRemoveAssignee\<close>: \<^verbatim>\<open>selectedAssignees.filter(a => a.id !== assigneeId)\<close>.
\<close>

definition handleRemoveAssignee ::
  "'a assignee_scheme list \<Rightarrow> string \<Rightarrow> 'a assignee_scheme list" where
  "handleRemoveAssignee selectedAssignees assigneeId =
     filter (\<lambda>a. id_a a \<noteq> assigneeId) selectedAssignees"

text \<open>
  \<^verbatim>\<open>handleAssigneeSelect\<close> of the task modal (part_002 line 234):
  \<^verbatim>\<open>
  assignees: [
    ...prev.assignees.filter(a => a.id !== assignee.id),
    { id: assignee.id, name: assignee.name, type: assignee.type,
      client_id: assignee.type === 'client' ? assignee.id : null,
      employee_id: assignee.type === 'employee' ? assignee.id : null }
  ]
  \<close>
\<close>

definition selectedEntry :: "'a assignee_scheme \<Rightarrow> task_assignee" where
  "selectedEntry assignee =
     \<lparr>id_a = id_a assignee, name = name assignee, type = type assignee,
      client_id = (if type assignee = ''client'' then Some (id_a assignee) else None),
      employee_id = (if type assignee = ''employee'' then Some (id_a assignee) else None)\<rparr>"

definition handleAssigneeSelect ::
  "task_assignee list \<Rightarrow> 'a assignee_scheme \<Rightarrow> task_assignee list" where
  "handleAssigneeSelect prev_assignees assignee =
     filter (\<lambda>a. id_a a \<noteq> id_a assignee) prev_assignees @ [selectedEntry assignee]"

subsection \<open>Properties of the selection\<close>

lemma find_id_None: "find (\<lambda>a. id_a a = i) xs = None \<longleftrightarrow> i \<notin> id_a ` set xs"
  by (auto simp: find_None_iff)

lemma handleSelectAssignee_present:
  "id_a assignee \<in> id_a ` set sel \<Longrightarrow> handleSelectAssignee sel assignee = sel"
  using find_id_None [of "id_a assignee" sel]
  by (auto simp: handleSelectAssignee_def split: option.splits)

lemma handleSelectAssignee_absent:
  "id_a assignee \<notin> id_a ` set sel \<Longrightarrow> handleSelectAssignee sel assignee = sel @ [assignee]"
  using find_id_None [of "id_a assignee" sel]
  by (simp add: handleSelectAssignee_def)

lemma handleSelectAssignee_distinct:
  "distinct (map id_a sel) \<Longrightarrow> distinct (map id_a (handleSelectAssignee sel assignee))"
  by (cases "id_a assignee \<in> id_a ` set sel")
     (simp_all add: handleSelectAssignee_present handleSelectAssignee_absent)

lemma handleAssigneeSelect_absent:
  "id_a assignee \<notin> id_a ` set prev \<Longrightarrow>
   handleAssigneeSelect prev assignee = prev @ [selectedEntry assignee]"
proof -
  assume "id_a assignee \<notin> id_a ` set prev"
  then have "filter (\<lambda>a. id_a a \<noteq> id_a assignee) prev = prev"
    by (induction prev) auto
  then show ?thesis by (simp add: handleAssigneeSelect_def)
qed

lemma distinct_map_filter_id:
  "distinct (map id_a xs) \<Longrightarrow> distinct (map id_a (filter P xs))"
  by (induction xs) auto

lemma handleAssigneeSelect_distinct:
  "distinct (map id_a prev) \<Longrightarrow> distinct (map id_a (handleAssigneeSelect prev assignee))"
  by (auto simp: handleAssigneeSelect_def selectedEntry_def distinct_map_filter_id)

text \<open>
  C4, as stated, at the task modal: selecting an assignee whose id is already in the
  list is not a no-op there. With the list \<open>[c1, e1]\<close> and the candidate \<open>c1\<close> the
  entry of \<open>c1\<close> is removed and a rebuilt entry is appended, so the list becomes
  \<open>[e1, c1]\<close>.
\<close>

theorem handleAssigneeSelect_not_noop:
  "id_a \<lparr>id_a = ''c1'', name = ''Acme'', type = ''client''\<rparr>
     \<in> id_a ` set [\<lparr>id_a = ''c1'', name = ''Acme'', type = ''client'',
                      client_id = Some ''c1'', employee_id = None\<rparr>,
                    \<lparr>id_a = ''e1'', name = ''Eve'', type = ''employee'',
                      client_id = None, employee_id = Some ''e1''\<rparr>]
   \<and> handleAssigneeSelect
       [\<lparr>id_a = ''c1'', name = ''Acme'', type = ''client'',
          client_id = Some ''c1'', employee_id = None\<rparr>,
        \<lparr>id_a = ''e1'', name = ''Eve'', type = ''employee'',
          client_id = None, employee_id = Some ''e1''\<rparr>]
       \<lparr>id_a = ''c1'', name = ''Acme'', type = ''client''\<rparr>
     \<noteq> [\<lparr>id_a = ''c1'', name = ''Acme'', type = ''client'',
           client_id = Some ''c1'', employee_id = None\<rparr>,
         \<lparr>id_a = ''e1'', name = ''Eve'', type = ''employee'',
           client_id = None, employee_id = Some ''e1''\<rparr>]"
  by (simp add: handleAssigneeSelect_def selectedEntry_def)

text \<open>
  C4, amended. In the template forms (\<open>handleSelectAssignee\<close>) selecting an id that is
  already in the selection list leaves the list unchanged, and an id that is not in
  the list is appended at the end. In the task modal (\<open>handleAssigneeSelect\<close>) every
  entry with the candidate's id is removed and the entry rebuilt from the candidate
  is appended at the end: an id that is not in the list is appended at the end, and
  a list with unique ids keeps unique ids.
\<close>

theorem assignee_selection_unique:
  "(id_a a \<in> id_a ` set sel \<longrightarrow> handleSelectAssignee sel a = sel)
   \<and> (id_a a \<notin> id_a ` set sel \<longrightarrow> handleSelectAssignee sel a = sel @ [a])
   \<and> handleAssigneeSelect prev c
       = filter (\<lambda>x. id_a x \<noteq> id_a c) prev @ [selectedEntry c]
   \<and> (id_a c \<notin> id_a ` set prev \<longrightarrow>
        handleAssigneeSelect prev c = prev @ [selectedEntry c])
   \<and> (distinct (map id_a prev) \<longrightarrow>
        distinct (map id_a (handleAssigneeSelect prev c)))"
  using handleSelectAssignee_present [of a sel] handleSelectAssignee_absent [of a sel]
    handleAssigneeSelect_absent [of c prev] handleAssigneeSelect_distinct [of prev c]
  by (simp add: handleAssigneeSelect_def)

theorem assignee_selection_unique_witness:
  "handleSelectAssignee
     [\<lparr>id_a = ''c1'', name = ''Acme'', type = ''client''\<rparr>]
     \<lparr>id_a = ''c1'', name = ''Acme Ltd'', type = ''client''\<rparr>
     = [\<lparr>id_a = ''c1'', name = ''Acme'', type = ''client''\<rparr>]
   \<and> handleSelectAssignee
       [\<lparr>id_a = ''c1'', name = ''Acme'', type = ''client''\<rparr>]
       \<lparr>id_a = ''e1'', name = ''Eve'', type = ''employee''\<rparr>
     = [\<lparr>id_a = ''c1'', name = ''Acme'', type = ''client''\<rparr>,
        \<lparr>id_a = ''e1'', name = ''Eve'', type = ''employee''\<rparr>]
   \<and> handleAssigneeSelect
       [\<lparr>id_a = ''c1'', name = ''Acme'', type = ''client'',
          client_id = Some ''c1'', employee_id = None\<rparr>]
       \<lparr>id_a = ''e1'', name = ''Eve'', type = ''employee''\<rparr>
     = [\<lparr>id_a = ''c1'', name = ''Acme'', type = ''client'',
          client_id = Some ''c1'', employee_id = None\<rparr>,
        \<lparr>id_a = ''e1'', name = ''Eve'', type = ''employee'',
          client_id = None, employee_id = Some ''e1''\<rparr>]
   \<and> distinct (map id_a (handleAssigneeSelect
       [\<lparr>id_a = ''c1'', name = ''Acme'', type = ''client'',
          client_id = Some ''c1'', employee_id = None\<rparr>]
       \<lparr>id_a = ''c1'', name = ''Acme'', type = ''client''\<rparr>))"
  using assignee_selection_unique
    [of "\<lparr>id_a = ''c1'', name = ''Acme Ltd'', type = ''client''\<rparr>"
        "[\<lparr>id_a = ''c1'', name = ''Acme'', type = ''client''\<rparr>]"
        "[\<lparr>id_a = ''c1'', name = ''Acme'', type = ''client'',
           client_id = Some ''c1'', employee_id = None\<rparr>]"
        "\<lparr>id_a = ''e1'', name = ''Eve'', type = ''employee''\<rparr>"]
    assignee_selection_unique
    [of "\<lparr>id_a = ''e1'', name = ''Eve'', type = ''employee''\<rparr>"
        "[\<lparr>id_a = ''c1'', name = ''Acme'', type = ''client''\<rparr>]"
        "[\<lparr>id_a = ''c1'', name = ''Acme'', type = ''client'',
           client_id = Some ''c1'', employee_id = None\<rparr>]"
        "\<lparr>id_a = ''c1'', name = ''Acme'', type = ''client''\<rparr>"]
  by (simp add: selectedEntry_def)

section \<open>Objects used as dictionaries\<close>

text \<open>
  \<^verbatim>\<open>groups\<close>, \<^verbatim>\<open>expandedGroups\<close> and \<^verbatim>\<open>newGroups\<close> are object literals \<^verbatim>\<open>{}\<close> indexed by
  group keys. Such an object is modelled by its own properties, an association list
  in insertion order. Its prototype is \<^verbatim>\<open>Object.prototype\<close>: a read \<^verbatim>\<open>obj[k]\<close> that finds
  no own property returns what the prototype holds under \<open>k\<close>, which for the keys of
  \<open>Object_prototype\<close> is a function (for \<^verbatim>\<open>__proto__\<close> the prototype object itself) and
  for every other key is \<^verbatim>\<open>undefined\<close>.
\<close>

type_synonym 'v js_object = "(string \<times> 'v) list"

definition Object_prototype :: "string list" where
  "Object_prototype =
     [''constructor'', ''hasOwnProperty'', ''isPrototypeOf'', ''propertyIsEnumerable'',
      ''toLocaleString'', ''toString'', ''valueOf'', ''__proto__'',
      ''__defineGetter__'', ''__defineSetter__'', ''__lookupGetter__'',
      ''__lookupSetter__'']"

datatype 'v property = Own 'v | Inherited | Undefined

definition js_get :: "'v js_object \<Rightarrow> string \<Rightarrow> 'v property" where
  "js_get obj k =
     (case map_of obj k of
        Some v \<Rightarrow> Own v
      | None \<Rightarrow> if k \<in> set Object_prototype then Inherited else Undefined)"

text \<open>
  Truthiness of a property read that holds a boolean when it is an own property:
  an inherited function or object is truthy, \<^verbatim>\<open>undefined\<close> is falsy.
\<close>

fun truthy :: "bool property \<Rightarrow> bool" where
  "truthy (Own b) = b"
| "truthy Inherited = True"
| "truthy Undefined = False"

text \<open>
  \<^verbatim>\<open>{...a, ...b}\<close>: a fresh object with the properties of \<open>a\<close>, on which the properties
  of \<open>b\<close> are then defined in turn. A key that exists keeps its position and takes
  the new value, a new key goes to the end.
\<close>

definition spread :: "'v js_object \<Rightarrow> 'v js_object \<Rightarrow> 'v js_object" where
  "spread a b = foldl (\<lambda>obj (k, v). AList.update k v obj) a b"

datatype error = TypeError

section \<open>Grouping templates by client\<close>

text \<open>
  TaskTemplate/TaskTemplate.js line 94:
  \<^verbatim>\<open>
  const groupedTemplates = templates.reduce((groups, template) => {
    const clientAssignee = template.assignees?.find(a => a.type === 'client');
    const groupKey = clientAssignee ? clientAssignee.name : 'unassigned';
    if (!groups[groupKey]) {
      groups[groupKey] = [];
    }
    groups[groupKey].push(template);
    return groups;
  }, {});
  \<close>
  \<open>groupKey\<close> is the key the second line computes for a template.
\<close>

definition clientAssignee :: "'a template_draft_scheme \<Rightarrow> assignee option" where
  "clientAssignee template =
     (case assignees template of
        None \<Rightarrow> None
      | Some as \<Rightarrow> find (\<lambda>a. type a = ''client'') as)"

definition groupKey :: "'a template_draft_scheme \<Rightarrow> string" where
  "groupKey template =
     (case clientAssignee template of
        Some c \<Rightarrow> name c
      | None \<Rightarrow> ''unassigned'')"

text \<open>
  One call of the reducer. When \<^verbatim>\<open>groups[groupKey]\<close> is \<^verbatim>\<open>undefined\<close> the empty array is
  stored first; when it is an array of the object itself the template is pushed;
  when it is an inherited property of \<^verbatim>\<open>Object.prototype\<close> the test \<^verbatim>\<open>!groups[groupKey]\<close>
  is false, nothing is stored, and \<^verbatim>\<open>groups[groupKey].push\<close> is not a function: the
  call raises a \<^verbatim>\<open>TypeError\<close>.
\<close>

definition group_step ::
  "template list js_object \<Rightarrow> template \<Rightarrow> error + template list js_object" where
  "group_step groups template =
     (case js_get groups (groupKey template) of
        Undefined \<Rightarrow> Inr (AList.update (groupKey template) [template] groups)
      | Own ts \<Rightarrow> Inr (AList.update (groupKey template) (ts @ [template]) groups)
      | Inherited \<Rightarrow> Inl TypeError)"

fun reduce_groups ::
  "template list js_object \<Rightarrow> template list \<Rightarrow> error + template list js_object" where
  "reduce_groups groups [] = Inr groups"
| "reduce_groups groups (template # rest) =
     (case group_step groups template of
        Inl e \<Rightarrow> Inl e
      | Inr groups' \<Rightarrow> reduce_groups groups' rest)"

definition groupedTemplates :: "template list \<Rightarrow> error + template list js_object" where
  "groupedTemplates templates = reduce_groups [] templates"

text \<open>
  The reference for one group: an old sequence \<open>old\<close> under a key (if any) and the
  templates \<open>new\<close> of the input that carry the key.
\<close>

definition extend_group :: "'a list option \<Rightarrow> 'a list \<Rightarrow> 'a list option" where
  "extend_group old new =
     (if new = [] then old else Some ((case old of None \<Rightarrow> [] | Some xs \<Rightarrow> xs) @ new))"

subsection \<open>Properties of the grouping\<close>

lemma group_step_ok:
  assumes "groupKey t \<notin> set Object_prototype"
  shows "group_step g t =
     Inr (AList.update (groupKey t)
            ((case map_of g (groupKey t) of None \<Rightarrow> [] | Some xs \<Rightarrow> xs) @ [t]) g)"
  using assms by (simp add: group_step_def js_get_def split: option.splits)

lemma group_step_fail:
  assumes "groupKey t \<in> set Object_prototype" "map_of g (groupKey t) = None"
  shows "group_step g t = Inl TypeError"
  using assms by (simp add: group_step_def js_get_def)

lemma mset_concat_update:
  "distinct (map fst g) \<Longrightarrow>
   mset (concat (map snd
      (AList.update k ((case map_of g k of None \<Rightarrow> [] | Some xs \<Rightarrow> xs) @ [t]) g)))
     = add_mset t (mset (concat (map snd g)))"
proof (induction g)
  case Nil
  then show ?case by simp
next
  case (Cons p g)
  obtain a b where p: "p = (a, b)" by (cases p)
  show ?case
  proof (cases "a = k")
    case True
    then show ?thesis using p by simp
  next
    case False
    then show ?thesis using Cons p by simp
  qed
qed

lemma reduce_groups_ok:
  assumes "\<forall>t\<in>set ts. groupKey t \<notin> set Object_prototype"
  shows "\<exists>g'. reduce_groups g ts = Inr g'
      \<and> (\<forall>k. map_of g' k = extend_group (map_of g k) (filter (\<lambda>t. groupKey t = k) ts))
      \<and> (distinct (map fst g) \<longrightarrow> distinct (map fst g'))
      \<and> (distinct (map fst g) \<longrightarrow>
           mset (concat (map snd g')) = mset (concat (map snd g)) + mset ts)"
  using assms
proof (induction ts arbitrary: g)
  case Nil
  then show ?case by (simp add: extend_group_def)
next
  case (Cons t ts)
  let ?g1 = "AList.update (groupKey t)
            ((case map_of g (groupKey t) of None \<Rightarrow> [] | Some xs \<Rightarrow> xs) @ [t]) g"
  have step: "group_step g t = Inr ?g1"
    using Cons.prems by (simp add: group_step_ok)
  from Cons.prems have "\<forall>t\<in>set ts. groupKey t \<notin> set Object_prototype" by simp
  from Cons.IH [OF this, of ?g1] obtain g' where
    r: "reduce_groups ?g1 ts = Inr g'"
    and l: "\<forall>k. map_of g' k = extend_group (map_of ?g1 k) (filter (\<lambda>t. groupKey t = k) ts)"
    and d: "distinct (map fst ?g1) \<longrightarrow> distinct (map fst g')"
    and m: "distinct (map fst ?g1) \<longrightarrow>
           mset (concat (map snd g')) = mset (concat (map snd ?g1)) + mset ts"
    by blast
  have "reduce_groups g (t # ts) = Inr g'" using step r by simp
  moreover have "\<forall>k. map_of g' k
      = extend_group (map_of g k) (filter (\<lambda>t. groupKey t = k) (t # ts))"
    using l by (auto simp: update_conv' extend_group_def split: option.splits)
  moreover have "distinct (map fst g) \<longrightarrow> distinct (map fst g')"
    using d by (simp add: distinct_update)
  moreover have "distinct (map fst g) \<longrightarrow>
           mset (concat (map snd g')) = mset (concat (map snd g)) + mset (t # ts)"
    using m by (simp add: distinct_update mset_concat_update)
  ultimately show ?case by blast
qed

lemma reduce_groups_keys_ok:
  assumes "reduce_groups g ts = Inr g'" "fst ` set g \<inter> set Object_prototype = {}"
  shows "\<forall>t\<in>set ts. groupKey t \<notin> set Object_prototype"
  using assms
proof (induction ts arbitrary: g)
  case Nil
  then show ?case by simp
next
  case (Cons t ts)
  from Cons.prems(1) obtain g1 where
    s: "group_step g t = Inr g1" and r: "reduce_groups g1 ts = Inr g'"
    by (auto split: sum.splits)
  have n: "map_of g (groupKey t) = None" if "groupKey t \<in> set Object_prototype"
    using that Cons.prems(2) by (metis disjoint_iff map_of_eq_None_iff)
  have k: "groupKey t \<notin> set Object_prototype"
    using s n group_step_fail [of t g] by auto
  then have "g1 = AList.update (groupKey t)
            ((case map_of g (groupKey t) of None \<Rightarrow> [] | Some xs \<Rightarrow> xs) @ [t]) g"
    using s by (simp add: group_step_ok)
  then have "fst ` set g1 \<inter> set Object_prototype = {}"
    using Cons.prems(2) k by (simp add: dom_update)
  from Cons.IH [OF r this] k show ?case by simp
qed

text \<open>
  The reduction fails exactly when some template's key is a property name of
  \<^verbatim>\<open>Object.prototype\<close>.
\<close>

lemma groupedTemplates_TypeError_iff:
  "groupedTemplates ts = Inl TypeError
     \<longleftrightarrow> (\<exists>t\<in>set ts. groupKey t \<in> set Object_prototype)"
proof
  assume "groupedTemplates ts = Inl TypeError"
  then show "\<exists>t\<in>set ts. groupKey t \<in> set Object_prototype"
    using reduce_groups_ok [of ts "[]"] by (auto simp: groupedTemplates_def)
next
  assume a: "\<exists>t\<in>set ts. groupKey t \<in> set Object_prototype"
  show "groupedTemplates ts = Inl TypeError"
  proof (cases "groupedTemplates ts")
    case (Inl e)
    then show ?thesis by (cases e) simp
  next
    case (Inr g')
    then show ?thesis using a reduce_groups_keys_ok [of "[]" ts g']
      by (auto simp: groupedTemplates_def)
  qed
qed

text \<open>
  On every other input the grouping is a partition that follows \<open>groupKey\<close>: the
  group under a key is the subsequence of the input with that key, a key without
  templates has no group, no key occurs twice, and the groups together hold the
  templates of the input, each as often as the input does.
\<close>

lemma groupedTemplates_partition:
  assumes "\<forall>t\<in>set ts. groupKey t \<notin> set Object_prototype"
  shows "\<exists>g. groupedTemplates ts = Inr g
      \<and> distinct (map fst g)
      \<and> (\<forall>k. map_of g k =
            (if filter (\<lambda>t. groupKey t = k) ts = [] then None
             else Some (filter (\<lambda>t. groupKey t = k) ts)))
      \<and> mset (concat (map snd g)) = mset ts"
  using reduce_groups_ok [OF assms, of "[]"]
  by (auto simp: groupedTemplates_def extend_group_def)

lemma groupedTemplates_member:
  assumes "\<forall>t\<in>set ts. groupKey t \<notin> set Object_prototype"
    and "groupedTemplates ts = Inr g" and "map_of g k = Some xs"
  shows "t \<in> set xs \<longleftrightarrow> t \<in> set ts \<and> groupKey t = k"
proof -
  from groupedTemplates_partition [OF assms(1)] assms(2)
  have "map_of g k = (if filter (\<lambda>t. groupKey t = k) ts = [] then None
             else Some (filter (\<lambda>t. groupKey t = k) ts))"
    by auto
  with assms(3) have "xs = filter (\<lambda>t. groupKey t = k) ts"
    by (auto split: if_splits)
  then show ?thesis by auto
qed

text \<open>The example of the specification; the fields it leaves open are arbitrary.\<close>

lemma groupedTemplates_example:
  "groupedTemplates
     [\<lparr>title = t1, description = d1, frequency = f1, priority = p1, job_type = j1,
       assignees = Some [\<lparr>id_a = ''c1'', name = ''Acme'', type = ''client''\<rparr>],
       is_active = a1, other = o1, id_t = ''1''\<rparr>,
      \<lparr>title = t2, description = d2, frequency = f2, priority = p2, job_type = j2,
       assignees = Some [], is_active = a2, other = o2, id_t = ''2''\<rparr>]
   = Inr [(''Acme'',
           [\<lparr>title = t1, description = d1, frequency = f1, priority = p1, job_type = j1,
             assignees = Some [\<lparr>id_a = ''c1'', name = ''Acme'', type = ''client''\<rparr>],
             is_active = a1, other = o1, id_t = ''1''\<rparr>]),
          (''unassigned'',
           [\<lparr>title = t2, description = d2, frequency = f2, priority = p2, job_type = j2,
             assignees = Some [], is_active = a2, other = o2, id_t = ''2''\<rparr>])]"
  by (simp add: groupedTemplates_def group_step_def js_get_def groupKey_def
      clientAssignee_def Object_prototype_def)

text \<open>
  C1. The claim asks for a partition on every input list. A template whose client
  is named \<^verbatim>\<open>constructor\<close> is a well-formed input, and on it the reduction raises a
  \<^verbatim>\<open>TypeError\<close> instead of returning groups: \<^verbatim>\<open>groups['constructor']\<close> is the inherited
  function \<^verbatim>\<open>Object\<close>, so no array is stored under the key, and the function has no
  method \<^verbatim>\<open>push\<close> to call.
\<close>

theorem groupedTemplates_constructor_TypeError:
  "groupedTemplates
     [\<lparr>title = ''Weekly report'', description = ''Send the report'',
       frequency = ''weekly'', priority = ''medium'', job_type = ''Content Team'',
       assignees = Some [\<lparr>id_a = ''c7'', name = ''constructor'', type = ''client''\<rparr>],
       is_active = True, other = [], id_t = ''1''\<rparr>]
   = Inl TypeError"
  by (simp add: groupedTemplates_def group_step_def js_get_def groupKey_def
      clientAssignee_def Object_prototype_def)

section \<open>Expand state of the groups\<close>

text \<open>
  The success path of \<^verbatim>\<open>fetchTemplates\<close> (TaskTemplate/TaskTemplate.js line 67):
  \<^verbatim>\<open>
  const newGroups = {};
  response.data.forEach(template => {
    const clientAssignee = template.assignees?.find(a => a.type === 'client');
    const groupKey = clientAssignee ? clientAssignee.name : 'unassigned';
    if (expandedGroups[groupKey] === undefined) {
      newGroups[groupKey] = false; // New groups start collapsed
    }
  });
  setExpandedGroups(prev => ({ ...prev, ...newGroups }));
  \<close>
  \<^verbatim>\<open>expandedGroups\<close> is the value of the state in the render that created this
  \<^verbatim>\<open>fetchTemplates\<close>; \<^verbatim>\<open>prev\<close> is the value of the state when the update is applied.
  The two are separate arguments of the model, as they are separate variables of
  the code.
\<close>

fun newGroups_forEach ::
  "bool js_object \<Rightarrow> bool js_object \<Rightarrow> template list \<Rightarrow> bool js_object" where
  "newGroups_forEach expandedGroups new [] = new"
| "newGroups_forEach expandedGroups new (template # rest) =
     newGroups_forEach expandedGroups
       (case js_get expandedGroups (groupKey template) of
          Undefined \<Rightarrow> AList.update (groupKey template) False new
        | _ \<Rightarrow> new)
       rest"

definition newGroups :: "bool js_object \<Rightarrow> template list \<Rightarrow> bool js_object" where
  "newGroups expandedGroups data = newGroups_forEach expandedGroups [] data"

definition mergeExpandedGroups :: "bool js_object \<Rightarrow> bool js_object \<Rightarrow> bool js_object" where
  "mergeExpandedGroups new prev = spread prev new"

definition fetch_expandedGroups ::
  "bool js_object \<Rightarrow> template list \<Rightarrow> bool js_object \<Rightarrow> bool js_object" where
  "fetch_expandedGroups expandedGroups data prev =
     mergeExpandedGroups (newGroups expandedGroups data) prev"

text \<open>
  \<^verbatim>\<open>toggleGroup\<close> (line 86):
  \<^verbatim>\<open>setExpandedGroups(prev => ({ ...prev, [groupKey]: !prev[groupKey] }))\<close>.
\<close>

definition toggleGroup :: "string \<Rightarrow> bool js_object \<Rightarrow> bool js_object" where
  "toggleGroup key prev = spread prev [(key, \<not> truthy (js_get prev key))]"

subsection \<open>Properties of the expand state\<close>

lemma map_of_rev_distinct:
  "distinct (map fst xs) \<Longrightarrow> map_of (rev xs) k = map_of xs k"
proof (induction xs)
  case Nil
  then show ?case by simp
next
  case (Cons p xs)
  obtain a b where p: "p = (a, b)" by (cases p)
  from Cons.prems p have "map_of xs a = None"
    by (simp add: map_of_eq_None_iff)
  with Cons p show ?case
    by (auto simp: map_of_append map_add_def split: option.splits)
qed

lemma map_of_foldl_update:
  "map_of (foldl (\<lambda>obj (k, v). AList.update k v obj) obj xs) k =
     (case map_of (rev xs) k of Some v \<Rightarrow> Some v | None \<Rightarrow> map_of obj k)"
proof (induction xs arbitrary: obj)
  case Nil
  then show ?case by simp
next
  case (Cons x xs)
  obtain a b where x: "x = (a, b)" by (cases x)
  show ?case using Cons [of "AList.update a b obj"] x
    by (auto simp: update_conv' map_of_append map_add_def split: option.splits)
qed

lemma map_of_spread:
  "distinct (map fst b) \<Longrightarrow>
   map_of (spread a b) k = (case map_of b k of Some v \<Rightarrow> Some v | None \<Rightarrow> map_of a k)"
  by (simp add: spread_def map_of_foldl_update map_of_rev_distinct)

lemma distinct_newGroups_forEach:
  "distinct (map fst ng) \<Longrightarrow> distinct (map fst (newGroups_forEach eg ng data))"
  by (induction data arbitrary: ng) (auto simp: distinct_update split: property.splits)

lemma distinct_newGroups: "distinct (map fst (newGroups eg data))"
  by (simp add: newGroups_def distinct_newGroups_forEach)

lemma newGroups_forEach_lookup:
  "map_of (newGroups_forEach eg ng data) k =
     (if k \<in> groupKey ` set data \<and> js_get eg k = Undefined then Some False
      else map_of ng k)"
proof (induction data arbitrary: ng)
  case Nil
  then show ?case by simp
next
  case (Cons t data)
  show ?case
    by (cases "js_get eg (groupKey t)") (auto simp: Cons update_conv')
qed

lemma newGroups_lookup:
  "map_of (newGroups eg data) k =
     (if k \<in> groupKey ` set data \<and> js_get eg k = Undefined then Some False else None)"
  by (simp add: newGroups_def newGroups_forEach_lookup)

text \<open>
  What a read of the map returns after the update: a key of the response that reads
  \<^verbatim>\<open>undefined\<close> in the closure's \<^verbatim>\<open>expandedGroups\<close> is collapsed, every other key reads
  as it did in \<^verbatim>\<open>prev\<close>.
\<close>

lemma fetch_lookup:
  "map_of (fetch_expandedGroups eg data prev) k =
     (if k \<in> groupKey ` set data \<and> js_get eg k = Undefined then Some False
      else map_of prev k)"
  by (simp add: fetch_expandedGroups_def mergeExpandedGroups_def map_of_spread
      distinct_newGroups newGroups_lookup)

lemma fetch_js_get:
  "js_get (fetch_expandedGroups eg data prev) k =
     (if k \<in> groupKey ` set data \<and> js_get eg k = Undefined then Own False
      else js_get prev k)"
  by (simp add: js_get_def [of "fetch_expandedGroups eg data prev"] fetch_lookup)
     (simp add: js_get_def)

text \<open>
  When no update of the map falls between the render and the response, so that the
  closure's value is the value the update is applied to, an expanded key stays
  expanded whatever the response holds.
\<close>

lemma fetch_keeps_expanded:
  assumes "js_get expandedGroups k = Own True"
  shows "js_get (fetch_expandedGroups expandedGroups data expandedGroups) k = Own True"
  using assms by (simp add: fetch_js_get)

text \<open>
  A key of the response that reads \<^verbatim>\<open>undefined\<close> in the closure's map is collapsed.
\<close>

lemma fetch_new_key_collapsed:
  assumes "k \<in> groupKey ` set data" "js_get expandedGroups k = Undefined"
  shows "js_get (fetch_expandedGroups expandedGroups data prev) k = Own False"
  using assms by (simp add: fetch_js_get)

lemma toggleGroup_get: "js_get (toggleGroup k prev) k = Own (\<not> truthy (js_get prev k))"
  by (simp add: toggleGroup_def js_get_def spread_def update_conv')

lemma toggleGroup_other: "k' \<noteq> k \<Longrightarrow> js_get (toggleGroup k prev) k' = js_get prev k'"
  by (simp add: toggleGroup_def js_get_def spread_def update_conv')

text \<open>
  The closure's map can be older than \<^verbatim>\<open>prev\<close>: a handler that was started in a
  render without the key \<^verbatim>\<open>Acme\<close> calls its \<^verbatim>\<open>fetchTemplates\<close> after another fetch has
  added the key and the user has expanded the group. The key then reads \<^verbatim>\<open>undefined\<close>
  in the closure and the update collapses the group again.
\<close>

lemma fetch_stale_closure_collapses:
  "fetch_expandedGroups []
     [\<lparr>title = ''Weekly report'', description = ''Send the report'',
       frequency = ''weekly'', priority = ''medium'', job_type = ''Content Team'',
       assignees = Some [\<lparr>id_a = ''c1'', name = ''Acme'', type = ''client''\<rparr>],
       is_active = True, other = [], id_t = ''1''\<rparr>]
     [(''Acme'', True)]
   = [(''Acme'', False)]"
  by (simp add: fetch_expandedGroups_def mergeExpandedGroups_def spread_def newGroups_def
      js_get_def groupKey_def clientAssignee_def Object_prototype_def)

text \<open>
  C2. The claim asks that every key of the response that was not in the map before
  is set to collapsed. With the empty map and a response whose only template has a
  client named \<^verbatim>\<open>constructor\<close>, the key is not an own property of the map before the
  fetch, the response produces it, and the map is still empty afterwards: the read
  \<^verbatim>\<open>expandedGroups['constructor']\<close> is the inherited function, not \<^verbatim>\<open>undefined\<close>, so
  no entry is made and the key still reads as the inherited (truthy) value.
\<close>

theorem fetch_constructor_not_collapsed:
  "map_of ([] :: bool js_object) ''constructor'' = None
   \<and> groupKey
       \<lparr>title = ''Weekly report'', description = ''Send the report'',
        frequency = ''weekly'', priority = ''medium'', job_type = ''Content Team'',
        assignees = Some [\<lparr>id_a = ''c7'', name = ''constructor'', type = ''client''\<rparr>],
        is_active = True, other = [], id_t = ''1''\<rparr> = ''constructor''
   \<and> fetch_expandedGroups []
       [\<lparr>title = ''Weekly report'', description = ''Send the report'',
         frequency = ''weekly'', priority = ''medium'', job_type = ''Content Team'',
         assignees = Some [\<lparr>id_a = ''c7'', name = ''constructor'', type = ''client''\<rparr>],
         is_active = True, other = [], id_t = ''1''\<rparr>]
       [] = []
   \<and> js_get (fetch_expandedGroups []
       [\<lparr>title = ''Weekly report'', description = ''Send the report'',
         frequency = ''weekly'', priority = ''medium'', job_type = ''Content Team'',
         assignees = Some [\<lparr>id_a = ''c7'', name = ''constructor'', type = ''client''\<rparr>],
         is_active = True, other = [], id_t = ''1''\<rparr>]
       []) ''constructor'' = Inherited"
  by (simp add: fetch_expandedGroups_def mergeExpandedGroups_def spread_def newGroups_def
      js_get_def groupKey_def clientAssignee_def Object_prototype_def)

section \<open>Requests and effects of the handlers\<close>

text \<open>
  A handler is an \<^verbatim>\<open>async\<close> function whose body is one \<^verbatim>\<open>try\<close>/\<^verbatim>\<open>catch\<close>. It is modelled by
  the list of its effects in program order, as a function of the outcomes of the
  promises it awaits. \<open>Rejected s\<close> is a rejected promise, \<open>s\<close> being
  \<^verbatim>\<open>error.response?.status\<close>: \<open>None\<close> for an error without a response.
\<close>

datatype 'a outcome = Resolved 'a | Rejected "nat option"

text \<open>
  The body of an update request: a whole template, or the object
  \<^verbatim>\<open>{ is_active: ... }\<close> that the spread of \<^verbatim>\<open>undefined\<close> leaves.
\<close>

datatype update_body = Whole template | Is_active_only bool

text \<open>
  The effects: the HTTP requests with the bearer token as first argument, the state
  setters, the console and the toast. \<open>SetExpandedGroups new\<close> is
  \<^verbatim>\<open>setExpandedGroups(prev => ({...prev, ...newGroups}))\<close>, that is
  \<open>mergeExpandedGroups new\<close>; \<open>ResetForm\<close> is the call of \<^verbatim>\<open>resetForm\<close>, and
  \<open>CloseBulkCopyModal\<close> stands for the four setters that close the bulk copy modal.
\<close>

datatype action =
    Get_templates string
  | Post_template string template_draft
  | Put_template string string update_body
  | Delete_template string string
  | Post_duplicate string string
  | Get_search_assignees string string
  | Post_timesheet string timesheet_entry
  | Put_task string string task
  | SetTemplates "template list"
  | SetExpandedGroups "bool js_object"
  | SetIsOpen bool
  | ResetForm
  | CloseBulkCopyModal
  | SetSearchQuery string
  | SetSearchResults "assignee list"
  | SetNewClientSearchQuery string
  | SetNewClientSearchResults "assignee list"
  | OnSubmit task
  | OnClose
  | Console_log string
  | Console_error string
  | Toast_error string

fun is_mutation :: "action \<Rightarrow> bool" where
  "is_mutation (Post_template _ _) = True"
| "is_mutation (Put_template _ _ _) = True"
| "is_mutation (Delete_template _ _) = True"
| "is_mutation (Post_duplicate _ _) = True"
| "is_mutation _ = False"

fun is_fetch :: "action \<Rightarrow> bool" where
  "is_fetch (Get_templates _) = True"
| "is_fetch _ = False"

fun is_put :: "action \<Rightarrow> bool" where
  "is_put (Put_template _ _ _) = True"
| "is_put _ = False"

fun is_post :: "action \<Rightarrow> bool" where
  "is_post (Post_template _ _) = True"
| "is_post _ = False"

fun is_search :: "action \<Rightarrow> bool" where
  "is_search (Get_search_assignees _ _) = True"
| "is_search _ = False"

fun is_post_timesheet :: "action \<Rightarrow> bool" where
  "is_post_timesheet (Post_timesheet _ _) = True"
| "is_post_timesheet _ = False"

fun is_console_error :: "action \<Rightarrow> bool" where
  "is_console_error (Console_error _) = True"
| "is_console_error _ = False"

fun is_toast :: "action \<Rightarrow> bool" where
  "is_toast (Toast_error _) = True"
| "is_toast _ = False"

definition rejected :: "'a outcome \<Rightarrow> bool" where
  "rejected x = (case x of Rejected _ \<Rightarrow> True | Resolved _ \<Rightarrow> False)"

text \<open>
  The error a handler's \<^verbatim>\<open>catch\<close> receives when it awaits the token and then one
  request (or one \<^verbatim>\<open>Promise.all\<close>): \<open>None\<close> when both resolve.
\<close>

definition first_failure :: "string outcome \<Rightarrow> 'r outcome \<Rightarrow> nat option option" where
  "first_failure tk mutation =
     (case tk of
        Rejected e \<Rightarrow> Some e
      | Resolved _ \<Rightarrow> (case mutation of Rejected e \<Rightarrow> Some e | Resolved _ \<Rightarrow> None))"

section \<open>Fetching and mutating templates\<close>

text \<open>
  The handlers of TaskTemplate/TaskTemplate.js. Each takes the outcome \<open>tk\<close> of its
  \<^verbatim>\<open>await getAccessToken()\<close>, the outcome of its request, and for the
  \<^verbatim>\<open>fetchTemplates\<close> it calls the closure value \<open>expandedGroups\<close> and the two outcomes
  \<open>fetch_token\<close> and \<open>fetch_response\<close>.

  \<^verbatim>\<open>fetchTemplates\<close> (line 59): the token, the GET, \<^verbatim>\<open>setTemplates(response.data)\<close>, the
  update of the expand state; any failure is logged.
\<close>

definition fetchTemplates ::
  "bool js_object \<Rightarrow> string outcome \<Rightarrow> template list outcome \<Rightarrow> action list" where
  "fetchTemplates expandedGroups fetch_token fetch_response =
     (case fetch_token of
        Rejected e \<Rightarrow> [Console_error ''Error fetching templates:'']
      | Resolved token \<Rightarrow>
          Get_templates token #
          (case fetch_response of
             Rejected e \<Rightarrow> [Console_error ''Error fetching templates:'']
           | Resolved data \<Rightarrow>
               [SetTemplates data, SetExpandedGroups (newGroups expandedGroups data)]))"

text \<open>
  \<^verbatim>\<open>handleSubmit\<close> (line 172). \<^verbatim>\<open>updateData\<close> is
  \<^verbatim>\<open>{...editingTemplate, title: formData.title, ..., is_active: formData.is_active}\<close>.
  After the request: \<^verbatim>\<open>setIsOpen(false); fetchTemplates(); resetForm();\<close>. The call of
  \<^verbatim>\<open>fetchTemplates\<close> is not awaited and suspends at its first \<^verbatim>\<open>await\<close>, so the form is
  reset before the GET is sent.
\<close>

definition updateData :: "template \<Rightarrow> template_draft \<Rightarrow> template" where
  "updateData editingTemplate formData =
     editingTemplate
       \<lparr>title := title formData,
        description := description formData,
        frequency := frequency formData,
        priority := priority formData,
        job_type := job_type formData,
        assignees := assignees formData,
        is_active := is_active formData\<rparr>"

definition handleSubmit_catch :: "nat option \<Rightarrow> action list" where
  "handleSubmit_catch e =
     Console_error ''Error saving template:'' #
     (if e = Some 403
      then [Toast_error ''You do not have permission to perform this action'']
      else [])"

definition handleSubmit ::
  "bool \<Rightarrow> template option \<Rightarrow> template_draft \<Rightarrow> string outcome \<Rightarrow> 'r outcome \<Rightarrow>
   bool js_object \<Rightarrow> string outcome \<Rightarrow> template list outcome \<Rightarrow> action list" where
  "handleSubmit isAdmin editingTemplate formData tk mutation
     expandedGroups fetch_token fetch_response =
     (if \<not> isAdmin
      then [Toast_error ''You do not have permission to create or edit templates'']
      else case tk of
        Rejected e \<Rightarrow> handleSubmit_catch e
      | Resolved token \<Rightarrow>
          (case editingTemplate of
             Some et \<Rightarrow> Put_template token (id_t et) (Whole (updateData et formData))
           | None \<Rightarrow> Post_template token formData) #
          (case mutation of
             Rejected e \<Rightarrow> handleSubmit_catch e
           | Resolved _ \<Rightarrow>
               [SetIsOpen False, ResetForm]
               @ fetchTemplates expandedGroups fetch_token fetch_response))"

text \<open>
  \<^verbatim>\<open>handleToggleActive\<close> (line 212; the same text is in TaskManager/TaskTemplate.js
  line 63):
  \<^verbatim>\<open>
  const template = templates.find(t => t._id === templateId);
  await axios.put(`${API_ENDPOINTS.TASK_TEMPLATES}/${templateId}`, {
    ...template,
    is_active: !currentStatus
  }, ...);
  fetchTemplates();
  \<close>
\<close>

definition toggleBody :: "template list \<Rightarrow> string \<Rightarrow> bool \<Rightarrow> update_body" where
  "toggleBody templates templateId currentStatus =
     (case find (\<lambda>t. id_t t = templateId) templates of
        Some template \<Rightarrow> Whole (template\<lparr>is_active := \<not> currentStatus\<rparr>)
      | None \<Rightarrow> Is_active_only (\<not> currentStatus))"

definition handleToggleActive ::
  "template list \<Rightarrow> string \<Rightarrow> bool \<Rightarrow> string outcome \<Rightarrow> 'r outcome \<Rightarrow>
   bool js_object \<Rightarrow> string outcome \<Rightarrow> template list outcome \<Rightarrow> action list" where
  "handleToggleActive templates templateId currentStatus tk mutation
     expandedGroups fetch_token fetch_response =
     (case tk of
        Rejected e \<Rightarrow> [Console_error ''Error updating template:'']
      | Resolved token \<Rightarrow>
          Put_template token templateId (toggleBody templates templateId currentStatus) #
          (case mutation of
             Rejected e \<Rightarrow> [Console_error ''Error updating template:'']
           | Resolved _ \<Rightarrow> fetchTemplates expandedGroups fetch_token fetch_response))"

text \<open>\<^verbatim>\<open>handleDuplicate\<close> (line 228).\<close>

definition handleDuplicate ::
  "template \<Rightarrow> string outcome \<Rightarrow> 'r outcome \<Rightarrow>
   bool js_object \<Rightarrow> string outcome \<Rightarrow> template list outcome \<Rightarrow> action list" where
  "handleDuplicate template tk mutation expandedGroups fetch_token fetch_response =
     (case tk of
        Rejected e \<Rightarrow> [Console_error ''Error duplicating template:'']
      | Resolved token \<Rightarrow>
          Post_duplicate token (id_t template) #
          (case mutation of
             Rejected e \<Rightarrow> [Console_error ''Error duplicating template:'']
           | Resolved _ \<Rightarrow> fetchTemplates expandedGroups fetch_token fetch_response))"

text \<open>
  \<^verbatim>\<open>handleBulkCopy\<close> (line 241). After the token it logs the selected templates and
  the new client (lines 245 and 246), and then for each selected template:
  \<^verbatim>\<open>
  console.log('Original template assignees:', template.assignees);
  const employeeAssignees = template.assignees?.filter(a => a.type === 'employee') || [];
  console.log('Filtered employee assignees:', employeeAssignees);
  const { _id, ...templateWithoutId } = template;
  const newTemplate = {
    ...templateWithoutId,
    assignees: [...employeeAssignees,
                { id: newClient.id, name: newClient.name, type: 'client' }]
  };
  console.log('New template to create:', newTemplate);
  return axios.post(API_ENDPOINTS.TASK_TEMPLATES, newTemplate, ...);
  \<close>
  The \<^verbatim>\<open>map\<close> sends every request before \<^verbatim>\<open>Promise.all\<close> is awaited; \<open>joined\<close> is the
  outcome of \<^verbatim>\<open>Promise.all\<close>. \<^verbatim>\<open>selectedClientTemplates\<close> is \<^verbatim>\<open>null\<close> until a group's copy
  button sets it, and \<^verbatim>\<open>null.map\<close> raises into the \<^verbatim>\<open>catch\<close>.
\<close>

definition employeeAssignees :: "'a template_draft_scheme \<Rightarrow> assignee list" where
  "employeeAssignees template =
     (case assignees template of
        None \<Rightarrow> []
      | Some as \<Rightarrow> filter (\<lambda>a. type a = ''employee'') as)"

definition templateWithoutId :: "template \<Rightarrow> template_draft" where
  "templateWithoutId template =
     \<lparr>title = title template, description = description template,
      frequency = frequency template, priority = priority template,
      job_type = job_type template, assignees = assignees template,
      is_active = is_active template, other = other template\<rparr>"

definition bulkCopyTemplate :: "'a assignee_scheme \<Rightarrow> template \<Rightarrow> template_draft" where
  "bulkCopyTemplate newClient template =
     (templateWithoutId template)
       \<lparr>assignees := Some (employeeAssignees template
          @ [\<lparr>id_a = id_a newClient, name = name newClient, type = ''client''\<rparr>])\<rparr>"

definition bulkCopy_request :: "string \<Rightarrow> 'a assignee_scheme \<Rightarrow> template \<Rightarrow> action list" where
  "bulkCopy_request token newClient template =
     [Console_log ''Original template assignees:'',
      Console_log ''Filtered employee assignees:'',
      Console_log ''New template to create:'',
      Post_template token (bulkCopyTemplate newClient template)]"

definition handleBulkCopy_catch :: "action list" where
  "handleBulkCopy_catch =
     [Console_error ''Error bulk copying templates:'', Console_error ''Error details:'']"

definition handleBulkCopy ::
  "template list option \<Rightarrow> 'a assignee_scheme \<Rightarrow> string outcome \<Rightarrow> 'r outcome \<Rightarrow>
   bool js_object \<Rightarrow> string outcome \<Rightarrow> template list outcome \<Rightarrow> action list" where
  "handleBulkCopy selectedClientTemplates newClient tk joined
     expandedGroups fetch_token fetch_response =
     (case tk of
        Rejected e \<Rightarrow> handleBulkCopy_catch
      | Resolved token \<Rightarrow>
          [Console_log ''Selected templates to copy:'',
           Console_log ''New client to assign:'']
          @ (case selectedClientTemplates of
             None \<Rightarrow> handleBulkCopy_catch
           | Some selected \<Rightarrow>
               concat (map (bulkCopy_request token newClient) selected)
               @ (case joined of
                    Rejected e \<Rightarrow> handleBulkCopy_catch
                  | Resolved _ \<Rightarrow>
                      CloseBulkCopyModal
                      # fetchTemplates expandedGroups fetch_token fetch_response)))"

text \<open>
  \<^verbatim>\<open>handleDelete\<close> (line 314) and \<^verbatim>\<open>handleDeleteGroup\<close> (line 334). \<open>confirmed\<close> is the
  answer of \<^verbatim>\<open>window.confirm\<close>; the \<^verbatim>\<open>catch\<close> logs the details when the error has a
  response.
\<close>

definition error_details :: "nat option \<Rightarrow> action list" where
  "error_details e = (case e of Some _ \<Rightarrow> [Console_error ''Error details:''] | None \<Rightarrow> [])"

definition handleDelete ::
  "bool \<Rightarrow> string \<Rightarrow> string outcome \<Rightarrow> 'r outcome \<Rightarrow>
   bool js_object \<Rightarrow> string outcome \<Rightarrow> template list outcome \<Rightarrow> action list" where
  "handleDelete confirmed templateId tk mutation expandedGroups fetch_token fetch_response =
     (if \<not> confirmed then []
      else case tk of
        Rejected e \<Rightarrow> Console_error ''Error deleting template:'' # error_details e
      | Resolved token \<Rightarrow>
          Delete_template token templateId #
          (case mutation of
             Rejected e \<Rightarrow> Console_error ''Error deleting template:'' # error_details e
           | Resolved _ \<Rightarrow> fetchTemplates expandedGroups fetch_token fetch_response))"

definition handleDeleteGroup ::
  "bool \<Rightarrow> template list \<Rightarrow> string outcome \<Rightarrow> 'r outcome \<Rightarrow>
   bool js_object \<Rightarrow> string outcome \<Rightarrow> template list outcome \<Rightarrow> action list" where
  "handleDeleteGroup confirmed templates tk joined
     expandedGroups fetch_token fetch_response =
     (if \<not> confirmed then []
      else case tk of
        Rejected e \<Rightarrow> Console_error ''Error deleting templates:'' # error_details e
      | Resolved token \<Rightarrow>
          map (\<lambda>template. Delete_template token (id_t template)) templates
          @ (case joined of
               Rejected e \<Rightarrow> Console_error ''Error deleting templates:'' # error_details e
             | Resolved _ \<Rightarrow> fetchTemplates expandedGroups fetch_token fetch_response))"

text \<open>Two templates for the concrete instances below.\<close>

definition acme_report :: template where
  "acme_report =
     \<lparr>title = ''Weekly report'', description = ''Send the report'',
      frequency = ''weekly'', priority = ''medium'', job_type = ''Content Team'',
      assignees = Some [\<lparr>id_a = ''e1'', name = ''Ada'', type = ''employee''\<rparr>,
                        \<lparr>id_a = ''c1'', name = ''Acme'', type = ''client''\<rparr>],
      is_active = True, other = [(''created_by'', ''u1'')], id_t = ''t1''\<rparr>"

definition daily_check :: template where
  "daily_check =
     \<lparr>title = ''Daily check'', description = ''Check the inbox'',
      frequency = ''daily'', priority = ''high'', job_type = ''Talent Team'',
      assignees = None, is_active = False, other = [], id_t = ''t2''\<rparr>"

subsection \<open>Properties of the handlers\<close>

lemma bulkCopy_requests_SetTemplates:
  "SetTemplates d \<notin> set (concat (map (bulkCopy_request tok c) sel))"
  by (induction sel) (auto simp: bulkCopy_request_def)

lemma bulkCopy_requests_posts:
  "filter is_post (concat (map (bulkCopy_request tok c) sel))
     = map (\<lambda>t. Post_template tok (bulkCopyTemplate c t)) sel"
  by (induction sel) (auto simp: bulkCopy_request_def)

lemma bulkCopy_requests_mutations:
  "filter is_mutation (concat (map (bulkCopy_request tok c) sel))
     = map (\<lambda>t. Post_template tok (bulkCopyTemplate c t)) sel"
  by (induction sel) (auto simp: bulkCopy_request_def)

lemma bulkCopy_requests_no_fetch:
  "filter is_fetch (concat (map (bulkCopy_request tok c) sel)) = []"
  by (induction sel) (auto simp: bulkCopy_request_def)

lemma bulkCopy_requests_no_toast:
  "filter is_toast (concat (map (bulkCopy_request tok c) sel)) = []"
  by (induction sel) (auto simp: bulkCopy_request_def)

lemma fetchTemplates_SetTemplates:
  "SetTemplates d \<in> set (fetchTemplates eg ftk frs) \<Longrightarrow> frs = Resolved d"
  by (auto simp: fetchTemplates_def split: outcome.splits)

lemma fetchTemplates_no_mutation: "filter is_mutation (fetchTemplates eg ftk frs) = []"
  by (simp add: fetchTemplates_def split: outcome.splits)

lemma fetchTemplates_no_put: "filter is_put (fetchTemplates eg ftk frs) = []"
  by (simp add: fetchTemplates_def split: outcome.splits)

lemma fetchTemplates_no_post: "filter is_post (fetchTemplates eg ftk frs) = []"
  by (simp add: fetchTemplates_def split: outcome.splits)

lemma fetchTemplates_no_toast: "filter is_toast (fetchTemplates eg ftk frs) = []"
  by (simp add: fetchTemplates_def split: outcome.splits)

lemma fetchTemplates_one_get: "length (filter is_fetch (fetchTemplates eg ftk frs)) \<le> 1"
  by (simp add: fetchTemplates_def split: outcome.splits)

lemma fetchTemplates_logged:
  "rejected ftk \<or> rejected frs \<Longrightarrow> list_ex is_console_error (fetchTemplates eg ftk frs)"
  by (auto simp: fetchTemplates_def rejected_def split: outcome.splits)

lemma handleSubmit_SetTemplates:
  "SetTemplates d \<in> set (handleSubmit adm et fd tk mo eg ftk frs) \<Longrightarrow> frs = Resolved d"
  by (auto simp: handleSubmit_def handleSubmit_catch_def
      dest: fetchTemplates_SetTemplates split: outcome.splits option.splits if_splits)

lemma handleToggleActive_SetTemplates:
  "SetTemplates d \<in> set (handleToggleActive ts tid cs tk mo eg ftk frs)
   \<Longrightarrow> frs = Resolved d"
  by (auto simp: handleToggleActive_def dest: fetchTemplates_SetTemplates
      split: outcome.splits)

lemma handleDuplicate_SetTemplates:
  "SetTemplates d \<in> set (handleDuplicate t tk mo eg ftk frs) \<Longrightarrow> frs = Resolved d"
  by (auto simp: handleDuplicate_def dest: fetchTemplates_SetTemplates split: outcome.splits)

lemma handleBulkCopy_SetTemplates:
  "SetTemplates d \<in> set (handleBulkCopy sel c tk jo eg ftk frs) \<Longrightarrow> frs = Resolved d"
  using bulkCopy_requests_SetTemplates [of d _ c]
  by (auto simp: handleBulkCopy_def handleBulkCopy_catch_def
      dest: fetchTemplates_SetTemplates split: outcome.splits option.splits)

lemma handleDelete_SetTemplates:
  "SetTemplates d \<in> set (handleDelete cf tid tk mo eg ftk frs) \<Longrightarrow> frs = Resolved d"
  by (auto simp: handleDelete_def error_details_def
      dest: fetchTemplates_SetTemplates split: outcome.splits option.splits if_splits)

lemma handleDeleteGroup_SetTemplates:
  "SetTemplates d \<in> set (handleDeleteGroup cf grp tk jo eg ftk frs) \<Longrightarrow> frs = Resolved d"
  by (auto simp: handleDeleteGroup_def error_details_def
      dest: fetchTemplates_SetTemplates split: outcome.splits option.splits if_splits)

text \<open>
  C3. Every mutating operation whose token and request resolve is followed by the
  call of \<open>fetchTemplates\<close>: the effects of the handler are the request (for the two
  bulk operations one request per template, for bulk copy with its console logs),
  the setters that close the form or the modal, and then the effects of
  \<open>fetchTemplates\<close>. Those start with the GET when its token resolves, and when the
  GET resolves with the list \<open>d\<close> they are exactly the GET, the assignment of \<open>d\<close> to
  the templates state and the update of the expand state. Whatever the outcomes, a
  \<open>SetTemplates d\<close> among the effects of a handler carries the data \<open>d\<close> of the GET
  response; the response \<open>r\<close> of the mutation appears in no effect.
\<close>

theorem refetch_after_mutation:
  "handleSubmit True None fd (Resolved tok) (Resolved r) eg ftk frs
     = [Post_template tok fd, SetIsOpen False, ResetForm] @ fetchTemplates eg ftk frs
   \<and> handleSubmit True (Some et) fd (Resolved tok) (Resolved r) eg ftk frs
     = [Put_template tok (id_t et) (Whole (updateData et fd)), SetIsOpen False, ResetForm]
       @ fetchTemplates eg ftk frs
   \<and> handleToggleActive ts tid cs (Resolved tok) (Resolved r) eg ftk frs
     = Put_template tok tid (toggleBody ts tid cs) # fetchTemplates eg ftk frs
   \<and> handleDelete True tid (Resolved tok) (Resolved r) eg ftk frs
     = Delete_template tok tid # fetchTemplates eg ftk frs
   \<and> handleDuplicate t (Resolved tok) (Resolved r) eg ftk frs
     = Post_duplicate tok (id_t t) # fetchTemplates eg ftk frs
   \<and> handleBulkCopy (Some sel) c (Resolved tok) (Resolved r) eg ftk frs
     = [Console_log ''Selected templates to copy:'', Console_log ''New client to assign:'']
       @ concat (map (\<lambda>t. [Console_log ''Original template assignees:'',
                              Console_log ''Filtered employee assignees:'',
                              Console_log ''New template to create:'',
                              Post_template tok (bulkCopyTemplate c t)]) sel)
       @ CloseBulkCopyModal # fetchTemplates eg ftk frs
   \<and> handleDeleteGroup True grp (Resolved tok) (Resolved r) eg ftk frs
     = map (\<lambda>t. Delete_template tok (id_t t)) grp @ fetchTemplates eg ftk frs
   \<and> (\<forall>ftok. ftk = Resolved ftok \<longrightarrow>
        (\<exists>rest. fetchTemplates eg ftk frs = Get_templates ftok # rest))
   \<and> (\<forall>ftok d. ftk = Resolved ftok \<and> frs = Resolved d \<longrightarrow>
        fetchTemplates eg ftk frs
          = [Get_templates ftok, SetTemplates d, SetExpandedGroups (newGroups eg d)])
   \<and> (\<forall>d. SetTemplates d \<in> set (fetchTemplates eg ftk frs) \<longrightarrow> frs = Resolved d)
   \<and> (\<forall>d. SetTemplates d \<in> set (handleSubmit adm oet fd tk (mo :: 'r outcome) eg ftk frs)
          \<longrightarrow> frs = Resolved d)
   \<and> (\<forall>d. SetTemplates d \<in> set (handleToggleActive ts tid cs tk mo eg ftk frs)
          \<longrightarrow> frs = Resolved d)
   \<and> (\<forall>d. SetTemplates d \<in> set (handleDelete cf tid tk mo eg ftk frs)
          \<longrightarrow> frs = Resolved d)
   \<and> (\<forall>d. SetTemplates d \<in> set (handleDuplicate t tk mo eg ftk frs)
          \<longrightarrow> frs = Resolved d)
   \<and> (\<forall>d. SetTemplates d \<in> set (handleBulkCopy osel c tk mo eg ftk frs)
          \<longrightarrow> frs = Resolved d)
   \<and> (\<forall>d. SetTemplates d \<in> set (handleDeleteGroup cf grp tk mo eg ftk frs)
          \<longrightarrow> frs = Resolved d)"
proof -
  have "handleSubmit True None fd (Resolved tok) (Resolved r) eg ftk frs
     = [Post_template tok fd, SetIsOpen False, ResetForm] @ fetchTemplates eg ftk frs"
    by (simp add: handleSubmit_def)
  moreover have "handleSubmit True (Some et) fd (Resolved tok) (Resolved r) eg ftk frs
     = [Put_template tok (id_t et) (Whole (updateData et fd)), SetIsOpen False, ResetForm]
       @ fetchTemplates eg ftk frs"
    by (simp add: handleSubmit_def)
  moreover have "handleToggleActive ts tid cs (Resolved tok) (Resolved r) eg ftk frs
     = Put_template tok tid (toggleBody ts tid cs) # fetchTemplates eg ftk frs"
    by (simp add: handleToggleActive_def)
  moreover have "handleDelete True tid (Resolved tok) (Resolved r) eg ftk frs
     = Delete_template tok tid # fetchTemplates eg ftk frs"
    by (simp add: handleDelete_def)
  moreover have "handleDuplicate t (Resolved tok) (Resolved r) eg ftk frs
     = Post_duplicate tok (id_t t) # fetchTemplates eg ftk frs"
    by (simp add: handleDuplicate_def)
  moreover have "handleBulkCopy (Some sel) c (Resolved tok) (Resolved r) eg ftk frs
     = [Console_log ''Selected templates to copy:'', Console_log ''New client to assign:'']
       @ concat (map (\<lambda>t. [Console_log ''Original template assignees:'',
                              Console_log ''Filtered employee assignees:'',
                              Console_log ''New template to create:'',
                              Post_template tok (bulkCopyTemplate c t)]) sel)
       @ CloseBulkCopyModal # fetchTemplates eg ftk frs"
    by (simp add: handleBulkCopy_def bulkCopy_request_def [abs_def])
  moreover have "handleDeleteGroup True grp (Resolved tok) (Resolved r) eg ftk frs
     = map (\<lambda>t. Delete_template tok (id_t t)) grp @ fetchTemplates eg ftk frs"
    by (simp add: handleDeleteGroup_def)
  moreover have "\<forall>ftok. ftk = Resolved ftok \<longrightarrow>
        (\<exists>rest. fetchTemplates eg ftk frs = Get_templates ftok # rest)"
    by (simp add: fetchTemplates_def)
  moreover have "\<forall>ftok d. ftk = Resolved ftok \<and> frs = Resolved d \<longrightarrow>
        fetchTemplates eg ftk frs
          = [Get_templates ftok, SetTemplates d, SetExpandedGroups (newGroups eg d)]"
    by (simp add: fetchTemplates_def)
  ultimately show ?thesis
    using fetchTemplates_SetTemplates [of _ eg ftk frs]
      handleSubmit_SetTemplates [of _ adm oet fd tk mo eg ftk frs]
      handleToggleActive_SetTemplates [of _ ts tid cs tk mo eg ftk frs]
      handleDelete_SetTemplates [of _ cf tid tk mo eg ftk frs]
      handleDuplicate_SetTemplates [of _ t tk mo eg ftk frs]
      handleBulkCopy_SetTemplates [of _ osel c tk mo eg ftk frs]
      handleDeleteGroup_SetTemplates [of _ cf grp tk mo eg ftk frs]
    by blast
qed

theorem refetch_after_mutation_witness:
  "handleDelete True ''t1'' (Resolved ''token'') (Resolved daily_check) []
       (Resolved ''token'') (Resolved [daily_check])
     = [Delete_template ''token'' ''t1'', Get_templates ''token'',
        SetTemplates [daily_check], SetExpandedGroups [(''unassigned'', False)]]
   \<and> SetTemplates [daily_check]
       \<in> set (fetchTemplates [] (Resolved ''token'') (Resolved [daily_check]))
   \<and> SetTemplates [daily_check]
       \<in> set (handleSubmit True (Some acme_report) (templateWithoutId acme_report)
            (Resolved ''token'') (Resolved daily_check) []
            (Resolved ''token'') (Resolved [daily_check]))
   \<and> SetTemplates [daily_check]
       \<in> set (handleToggleActive [acme_report, daily_check] ''t1'' True
            (Resolved ''token'') (Resolved daily_check) []
            (Resolved ''token'') (Resolved [daily_check]))
   \<and> SetTemplates [daily_check]
       \<in> set (handleDelete True ''t1'' (Resolved ''token'') (Resolved daily_check) []
            (Resolved ''token'') (Resolved [daily_check]))
   \<and> SetTemplates [daily_check]
       \<in> set (handleDuplicate acme_report (Resolved ''token'') (Resolved daily_check) []
            (Resolved ''token'') (Resolved [daily_check]))
   \<and> SetTemplates [daily_check]
       \<in> set (handleBulkCopy (Some [acme_report])
            \<lparr>id_a = ''c2'', name = ''Globex'', type = ''client''\<rparr>
            (Resolved ''token'') (Resolved daily_check) []
            (Resolved ''token'') (Resolved [daily_check]))
   \<and> SetTemplates [daily_check]
       \<in> set (handleDeleteGroup True [acme_report]
            (Resolved ''token'') (Resolved daily_check) []
            (Resolved ''token'') (Resolved [daily_check]))
   \<and> (Resolved [daily_check] :: template list outcome) = Resolved [daily_check]"
  using refetch_after_mutation
    [where fd = "templateWithoutId acme_report" and tok = "''token''" and r = daily_check
       and eg = "[]" and ftk = "Resolved ''token''" and frs = "Resolved [daily_check]"
       and et = acme_report and ts = "[acme_report, daily_check]" and tid = "''t1''"
       and cs = True and t = acme_report and sel = "[acme_report]"
       and c = "\<lparr>id_a = ''c2'', name = ''Globex'', type = ''client''\<rparr>"
       and grp = "[acme_report]" and adm = True and oet = "Some acme_report"
       and tk = "Resolved ''token''" and mo = "Resolved daily_check" and cf = True
       and osel = "Some [acme_report]"]
  by (simp add: fetchTemplates_def newGroups_def js_get_def groupKey_def
      clientAssignee_def daily_check_def Object_prototype_def)

lemma find_id_t_distinct:
  "t \<in> set ts \<Longrightarrow> distinct (map id_t ts) \<Longrightarrow> find (\<lambda>x. id_t x = id_t t) ts = Some t"
  by (induction ts) (auto simp: rev_image_eqI)

lemma find_id_t_first:
  "t \<in> set ts \<Longrightarrow>
   \<exists>r. find (\<lambda>x. id_t x = id_t t) ts = Some r \<and> id_t r = id_t t \<and> r \<in> set ts"
  by (induction ts) auto

lemma handleToggleActive_puts:
  "filter is_put (handleToggleActive ts tid cs (Resolved tok) mo eg ftk frs)
     = [Put_template tok tid (toggleBody ts tid cs)]"
  by (simp add: handleToggleActive_def fetchTemplates_no_put split: outcome.splits)

text \<open>
  Whatever the list, the body is the first record with the requested id, with
  \<open>is_active\<close> replaced.
\<close>

lemma toggleBody_first_match:
  assumes "t \<in> set templates"
  shows "\<exists>r. r \<in> set templates \<and> id_t r = id_t t
       \<and> toggleBody templates (id_t t) cs = Whole (r\<lparr>is_active := \<not> cs\<rparr>)"
  using find_id_t_first [OF assms] by (auto simp: toggleBody_def)

text \<open>
  C7. For a template \<open>t\<close> of the local list (the ids of the list being unique, as
  server-assigned identifiers are), \<open>handleToggleActive\<close> with the id of \<open>t\<close> and a
  current status \<open>cs\<close> sends exactly one update request, to the id of \<open>t\<close>, and its
  body is the whole record \<open>t\<close> with \<open>is_active\<close> set to the negation of \<open>cs\<close>: every
  other field, the unlisted ones in \<open>other\<close> included, is the field of \<open>t\<close>. The row
  of the table calls the handler with \<open>cs = is_active t\<close>.
\<close>

theorem toggle_active_frame:
  assumes "t \<in> set templates" and "distinct (map id_t templates)"
  shows "filter is_put
           (handleToggleActive templates (id_t t) cs (Resolved tok) mo eg ftk frs)
           = [Put_template tok (id_t t) (Whole (t\<lparr>is_active := \<not> cs\<rparr>))]
       \<and> is_active (t\<lparr>is_active := \<not> cs\<rparr>) = (\<not> cs)
       \<and> id_t (t\<lparr>is_active := \<not> cs\<rparr>) = id_t t
       \<and> title (t\<lparr>is_active := \<not> cs\<rparr>) = title t
       \<and> description (t\<lparr>is_active := \<not> cs\<rparr>) = description t
       \<and> frequency (t\<lparr>is_active := \<not> cs\<rparr>) = frequency t
       \<and> priority (t\<lparr>is_active := \<not> cs\<rparr>) = priority t
       \<and> job_type (t\<lparr>is_active := \<not> cs\<rparr>) = job_type t
       \<and> assignees (t\<lparr>is_active := \<not> cs\<rparr>) = assignees t
       \<and> other (t\<lparr>is_active := \<not> cs\<rparr>) = other t"
  using find_id_t_distinct [OF assms]
  by (simp add: handleToggleActive_puts toggleBody_def)

theorem toggle_active_frame_witness:
  "acme_report \<in> set [acme_report, daily_check]
   \<and> distinct (map id_t [acme_report, daily_check])
   \<and> filter is_put
       (handleToggleActive [acme_report, daily_check] (id_t acme_report)
          (is_active acme_report) (Resolved ''token'') (Resolved ()) []
          (Resolved ''token'') (Resolved [acme_report, daily_check]))
     = [Put_template ''token'' ''t1''
          (Whole \<lparr>title = ''Weekly report'', description = ''Send the report'',
             frequency = ''weekly'', priority = ''medium'', job_type = ''Content Team'',
             assignees = Some [\<lparr>id_a = ''e1'', name = ''Ada'', type = ''employee''\<rparr>,
                               \<lparr>id_a = ''c1'', name = ''Acme'', type = ''client''\<rparr>],
             is_active = False, other = [(''created_by'', ''u1'')], id_t = ''t1''\<rparr>)]"
proof -
  have m: "acme_report \<in> set [acme_report, daily_check]" by simp
  have d: "distinct (map id_t [acme_report, daily_check])"
    by (simp add: acme_report_def daily_check_def)
  show ?thesis
    using m d toggle_active_frame [OF m d, of "is_active acme_report" "''token''"
        "Resolved ()" "[]" "Resolved ''token''" "Resolved [acme_report, daily_check]"]
    by (simp add: acme_report_def)
qed

lemma handleBulkCopy_posts:
  "filter is_post (handleBulkCopy (Some sel) c (Resolved tok) jo eg ftk frs)
     = map (\<lambda>t. Post_template tok (bulkCopyTemplate c t)) sel"
  by (simp add: handleBulkCopy_def handleBulkCopy_catch_def fetchTemplates_no_post
      bulkCopy_requests_posts split: outcome.splits)

text \<open>
  C6. Once the token is there, \<open>handleBulkCopy\<close> on the selected templates \<open>sel\<close> and
  the new client \<open>c\<close> sends one create request per template of \<open>sel\<close>, in order,
  whatever \<^verbatim>\<open>Promise.all\<close> and the fetch return. The body for a template \<open>t\<close> has no
  \<^verbatim>\<open>_id\<close> (it is a \<open>template_draft\<close>), its assignees are the assignees of \<open>t\<close> of type
  \<^verbatim>\<open>employee\<close> in their order followed by the one client \<open>{id, name}\<close> of \<open>c\<close> with type
  \<^verbatim>\<open>client\<close>, and every other field is the field of \<open>t\<close>.
\<close>

theorem bulk_copy_transformation:
  "filter is_post (handleBulkCopy (Some sel) c (Resolved tok) jo eg ftk frs)
     = map (\<lambda>t. Post_template tok (bulkCopyTemplate c t)) sel
   \<and> length (filter is_post (handleBulkCopy (Some sel) c (Resolved tok) jo eg ftk frs))
     = length sel
   \<and> assignees (bulkCopyTemplate c t)
     = Some (filter (\<lambda>a. type a = ''employee'')
               (case assignees t of None \<Rightarrow> [] | Some as \<Rightarrow> as)
             @ [\<lparr>id_a = id_a c, name = name c, type = ''client''\<rparr>])
   \<and> title (bulkCopyTemplate c t) = title t
   \<and> description (bulkCopyTemplate c t) = description t
   \<and> frequency (bulkCopyTemplate c t) = frequency t
   \<and> priority (bulkCopyTemplate c t) = priority t
   \<and> job_type (bulkCopyTemplate c t) = job_type t
   \<and> is_active (bulkCopyTemplate c t) = is_active t
   \<and> other (bulkCopyTemplate c t) = other t
   \<and> bulkCopyTemplate c t
     = (template_draft.truncate t)
         \<lparr>assignees := Some (filter (\<lambda>a. type a = ''employee'')
              (case assignees t of None \<Rightarrow> [] | Some as \<Rightarrow> as)
            @ [\<lparr>id_a = id_a c, name = name c, type = ''client''\<rparr>])\<rparr>"
  by (simp add: handleBulkCopy_posts bulkCopyTemplate_def templateWithoutId_def
      employeeAssignees_def template_draft.truncate_def split: option.splits)

lemma bulkCopyTemplate_example:
  "bulkCopyTemplate \<lparr>id_a = ''c2'', name = ''Globex'', type = ''client''\<rparr> acme_report
     = \<lparr>title = ''Weekly report'', description = ''Send the report'',
        frequency = ''weekly'', priority = ''medium'', job_type = ''Content Team'',
        assignees = Some [\<lparr>id_a = ''e1'', name = ''Ada'', type = ''employee''\<rparr>,
                          \<lparr>id_a = ''c2'', name = ''Globex'', type = ''client''\<rparr>],
        is_active = True, other = [(''created_by'', ''u1'')]\<rparr>"
  by (simp add: bulkCopyTemplate_def templateWithoutId_def employeeAssignees_def
      acme_report_def)

subsection \<open>Failures\<close>

lemma filter_mutation_deletes:
  "filter is_mutation (map (\<lambda>t. Delete_template tok (f t)) xs)
     = map (\<lambda>t. Delete_template tok (f t)) xs"
  by (induction xs) auto

lemma filter_toast_map_delete:
  "filter is_toast (map (\<lambda>t. Delete_template tok (f t)) xs) = []"
  by (induction xs) auto

lemma filter_fetch_map_delete:
  "filter is_fetch (map (\<lambda>t. Delete_template tok (f t)) xs) = []"
  by (induction xs) auto

lemma logged_submit:
  "first_failure tk mo \<noteq> None \<Longrightarrow>
   list_ex is_console_error (handleSubmit True oet fd tk mo eg ftk frs)"
  by (auto simp: handleSubmit_def handleSubmit_catch_def first_failure_def
      split: outcome.splits)

lemma logged_toggle:
  "first_failure tk mo \<noteq> None \<Longrightarrow>
   list_ex is_console_error (handleToggleActive ts tid cs tk mo eg ftk frs)"
  by (auto simp: handleToggleActive_def first_failure_def split: outcome.splits)

lemma logged_duplicate:
  "first_failure tk mo \<noteq> None \<Longrightarrow>
   list_ex is_console_error (handleDuplicate t tk mo eg ftk frs)"
  by (auto simp: handleDuplicate_def first_failure_def split: outcome.splits)

lemma logged_delete:
  "first_failure tk mo \<noteq> None \<Longrightarrow>
   list_ex is_console_error (handleDelete True tid tk mo eg ftk frs)"
  by (auto simp: handleDelete_def first_failure_def split: outcome.splits)

lemma logged_bulk:
  "first_failure tk mo \<noteq> None \<Longrightarrow>
   list_ex is_console_error (handleBulkCopy (Some sel) c tk mo eg ftk frs)"
  by (auto simp: handleBulkCopy_def handleBulkCopy_catch_def first_failure_def
      split: outcome.splits)

lemma logged_group:
  "first_failure tk mo \<noteq> None \<Longrightarrow>
   list_ex is_console_error (handleDeleteGroup True grp tk mo eg ftk frs)"
  by (auto simp: handleDeleteGroup_def first_failure_def split: outcome.splits)

lemma once_submit:
  "length (filter is_mutation (handleSubmit adm oet fd tk mo eg ftk frs)) \<le> 1
   \<and> length (filter is_fetch (handleSubmit adm oet fd tk mo eg ftk frs)) \<le> 1"
  using fetchTemplates_one_get [of eg ftk frs]
  by (auto simp: handleSubmit_def handleSubmit_catch_def fetchTemplates_no_mutation
      split: outcome.splits option.splits)

lemma once_toggle:
  "length (filter is_mutation (handleToggleActive ts tid cs tk mo eg ftk frs)) \<le> 1
   \<and> length (filter is_fetch (handleToggleActive ts tid cs tk mo eg ftk frs)) \<le> 1"
  using fetchTemplates_one_get [of eg ftk frs]
  by (auto simp: handleToggleActive_def fetchTemplates_no_mutation split: outcome.splits)

lemma once_duplicate:
  "length (filter is_mutation (handleDuplicate t tk mo eg ftk frs)) \<le> 1
   \<and> length (filter is_fetch (handleDuplicate t tk mo eg ftk frs)) \<le> 1"
  using fetchTemplates_one_get [of eg ftk frs]
  by (auto simp: handleDuplicate_def fetchTemplates_no_mutation split: outcome.splits)

lemma once_delete:
  "length (filter is_mutation (handleDelete cf tid tk mo eg ftk frs)) \<le> 1
   \<and> length (filter is_fetch (handleDelete cf tid tk mo eg ftk frs)) \<le> 1"
  using fetchTemplates_one_get [of eg ftk frs]
  by (auto simp: handleDelete_def error_details_def fetchTemplates_no_mutation
      split: outcome.splits option.splits)

lemma once_bulk:
  "length (filter is_mutation (handleBulkCopy (Some sel) c tk mo eg ftk frs)) \<le> length sel
   \<and> length (filter is_fetch (handleBulkCopy (Some sel) c tk mo eg ftk frs)) \<le> 1"
  using fetchTemplates_one_get [of eg ftk frs]
  by (auto simp: handleBulkCopy_def handleBulkCopy_catch_def fetchTemplates_no_mutation
      bulkCopy_requests_mutations bulkCopy_requests_no_fetch split: outcome.splits)

lemma once_group:
  "length (filter is_mutation (handleDeleteGroup cf grp tk mo eg ftk frs)) \<le> length grp
   \<and> length (filter is_fetch (handleDeleteGroup cf grp tk mo eg ftk frs)) \<le> 1"
  using fetchTemplates_one_get [of eg ftk frs]
  by (auto simp: handleDeleteGroup_def error_details_def fetchTemplates_no_mutation
      filter_mutation_deletes filter_fetch_map_delete split: outcome.splits option.splits)

lemma toast_submit:
  "filter is_toast (handleSubmit adm oet fd tk mo eg ftk frs) =
     (if \<not> adm then [Toast_error ''You do not have permission to create or edit templates'']
      else if first_failure tk mo = Some (Some 403)
      then [Toast_error ''You do not have permission to perform this action'']
      else [])"
  by (auto simp: handleSubmit_def handleSubmit_catch_def first_failure_def
      fetchTemplates_no_toast split: outcome.splits option.splits)

lemma no_toast_toggle:
  "filter is_toast (handleToggleActive ts tid cs tk mo eg ftk frs) = []"
  by (auto simp: handleToggleActive_def fetchTemplates_no_toast split: outcome.splits)

lemma no_toast_duplicate: "filter is_toast (handleDuplicate t tk mo eg ftk frs) = []"
  by (auto simp: handleDuplicate_def fetchTemplates_no_toast split: outcome.splits)

lemma no_toast_delete: "filter is_toast (handleDelete cf tid tk mo eg ftk frs) = []"
  by (auto simp: handleDelete_def error_details_def fetchTemplates_no_toast
      split: outcome.splits option.splits)

lemma no_toast_bulk: "filter is_toast (handleBulkCopy osel c tk mo eg ftk frs) = []"
  by (auto simp: handleBulkCopy_def handleBulkCopy_catch_def fetchTemplates_no_toast
      bulkCopy_requests_no_toast split: outcome.splits option.splits)

lemma no_toast_group: "filter is_toast (handleDeleteGroup cf grp tk mo eg ftk frs) = []"
  by (auto simp: handleDeleteGroup_def error_details_def fetchTemplates_no_toast
      filter_toast_map_delete split: outcome.splits option.splits)

text \<open>
  C9, as stated, at \<open>handleDelete\<close>: the delete request is answered with HTTP 403, the
  handler logs the error and its details, and no toast is raised.
\<close>

theorem handleDelete_403_no_toast:
  "handleDelete True ''t1'' (Resolved ''token'') (Rejected (Some 403) :: unit outcome)
       [] (Resolved ''token'') (Resolved [])
     = [Delete_template ''token'' ''t1'', Console_error ''Error deleting template:'',
        Console_error ''Error details:'']
   \<and> filter is_toast
       (handleDelete True ''t1'' (Resolved ''token'') (Rejected (Some 403) :: unit outcome)
          [] (Resolved ''token'') (Resolved [])) = []"
  by (simp add: handleDelete_def error_details_def)

text \<open>
  C9, amended. In every template operation a failure of the token or of the request
  is caught and logged to the console, and so is a failure inside \<open>fetchTemplates\<close>.
  No request is retried: a handler sends at most one mutating request (the bulk
  operations at most one per template) and at most one GET. Among the mutating
  operations only create/edit (\<open>handleSubmit\<close>) raises a toast: the permission toast
  when the failure it catches has HTTP status 403, and, before any request, a toast
  when the user is not an admin. Toggle-active, duplicate, delete, bulk copy and
  group delete raise no toast, whatever the failure.
\<close>

theorem failures_logged_toast_on_submit_only:
  "(first_failure tk mo \<noteq> None \<longrightarrow>
      list_ex is_console_error (handleSubmit True oet fd tk mo eg ftk frs)
    \<and> list_ex is_console_error (handleToggleActive ts tid cs tk mo eg ftk frs)
    \<and> list_ex is_console_error (handleDuplicate t tk mo eg ftk frs)
    \<and> list_ex is_console_error (handleDelete True tid tk mo eg ftk frs)
    \<and> list_ex is_console_error (handleBulkCopy (Some sel) c tk mo eg ftk frs)
    \<and> list_ex is_console_error (handleDeleteGroup True grp tk mo eg ftk frs))
   \<and> (rejected ftk \<or> rejected frs \<longrightarrow>
        list_ex is_console_error (fetchTemplates eg ftk frs))
   \<and> length (filter is_mutation (handleSubmit adm oet fd tk mo eg ftk frs)) \<le> 1
   \<and> length (filter is_fetch (handleSubmit adm oet fd tk mo eg ftk frs)) \<le> 1
   \<and> length (filter is_mutation (handleToggleActive ts tid cs tk mo eg ftk frs)) \<le> 1
   \<and> length (filter is_fetch (handleToggleActive ts tid cs tk mo eg ftk frs)) \<le> 1
   \<and> length (filter is_mutation (handleDuplicate t tk mo eg ftk frs)) \<le> 1
   \<and> length (filter is_fetch (handleDuplicate t tk mo eg ftk frs)) \<le> 1
   \<and> length (filter is_mutation (handleDelete cf tid tk mo eg ftk frs)) \<le> 1
   \<and> length (filter is_fetch (handleDelete cf tid tk mo eg ftk frs)) \<le> 1
   \<and> length (filter is_mutation (handleBulkCopy (Some sel) c tk mo eg ftk frs))
       \<le> length sel
   \<and> length (filter is_fetch (handleBulkCopy (Some sel) c tk mo eg ftk frs)) \<le> 1
   \<and> length (filter is_mutation (handleDeleteGroup cf grp tk mo eg ftk frs))
       \<le> length grp
   \<and> length (filter is_fetch (handleDeleteGroup cf grp tk mo eg ftk frs)) \<le> 1
   \<and> filter is_toast (handleSubmit adm oet fd tk mo eg ftk frs) =
       (if \<not> adm
        then [Toast_error ''You do not have permission to create or edit templates'']
        else if first_failure tk mo = Some (Some 403)
        then [Toast_error ''You do not have permission to perform this action'']
        else [])
   \<and> filter is_toast (handleToggleActive ts tid cs tk mo eg ftk frs) = []
   \<and> filter is_toast (handleDuplicate t tk mo eg ftk frs) = []
   \<and> filter is_toast (handleDelete cf tid tk mo eg ftk frs) = []
   \<and> filter is_toast (handleBulkCopy osel c tk mo eg ftk frs) = []
   \<and> filter is_toast (handleDeleteGroup cf grp tk mo eg ftk frs) = []"
proof -
  have a: "first_failure tk mo \<noteq> None \<longrightarrow>
      list_ex is_console_error (handleSubmit True oet fd tk mo eg ftk frs)
    \<and> list_ex is_console_error (handleToggleActive ts tid cs tk mo eg ftk frs)
    \<and> list_ex is_console_error (handleDuplicate t tk mo eg ftk frs)
    \<and> list_ex is_console_error (handleDelete True tid tk mo eg ftk frs)
    \<and> list_ex is_console_error (handleBulkCopy (Some sel) c tk mo eg ftk frs)
    \<and> list_ex is_console_error (handleDeleteGroup True grp tk mo eg ftk frs)"
    by (simp add: logged_submit logged_toggle logged_duplicate logged_delete
        logged_bulk logged_group)
  have b: "rejected ftk \<or> rejected frs \<longrightarrow>
        list_ex is_console_error (fetchTemplates eg ftk frs)"
    by (simp add: fetchTemplates_logged)
  show ?thesis
    using a b once_submit [of adm oet fd tk mo eg ftk frs]
      once_toggle [of ts tid cs tk mo eg ftk frs]
      once_duplicate [of t tk mo eg ftk frs]
      once_delete [of cf tid tk mo eg ftk frs]
      once_bulk [of sel c tk mo eg ftk frs]
      once_group [of cf grp tk mo eg ftk frs]
    by (simp only: toast_submit no_toast_toggle no_toast_duplicate no_toast_delete
        no_toast_bulk no_toast_group simp_thms)
qed

theorem failures_logged_toast_on_submit_only_witness:
  "first_failure (Resolved ''token'') (Rejected (Some 403) :: unit outcome) \<noteq> None
   \<and> rejected (Rejected None :: template list outcome)
   \<and> handleSubmit True None (templateWithoutId acme_report) (Resolved ''token'')
       (Rejected (Some 403) :: unit outcome) [] (Resolved ''token'') (Rejected None)
     = [Post_template ''token'' (templateWithoutId acme_report),
        Console_error ''Error saving template:'',
        Toast_error ''You do not have permission to perform this action'']
   \<and> list_ex is_console_error
       (handleToggleActive [acme_report] ''t1'' True (Resolved ''token'')
          (Rejected (Some 403) :: unit outcome) [] (Resolved ''token'') (Rejected None))
   \<and> list_ex is_console_error
       (handleDuplicate acme_report (Resolved ''token'')
          (Rejected (Some 403) :: unit outcome) [] (Resolved ''token'') (Rejected None))
   \<and> list_ex is_console_error
       (handleDelete True ''t1'' (Resolved ''token'')
          (Rejected (Some 403) :: unit outcome) [] (Resolved ''token'') (Rejected None))
   \<and> list_ex is_console_error
       (handleBulkCopy (Some [acme_report])
          \<lparr>id_a = ''c2'', name = ''Globex'', type = ''client''\<rparr> (Resolved ''token'')
          (Rejected (Some 403) :: unit outcome) [] (Resolved ''token'') (Rejected None))
   \<and> list_ex is_console_error
       (handleDeleteGroup True [acme_report] (Resolved ''token'')
          (Rejected (Some 403) :: unit outcome) [] (Resolved ''token'') (Rejected None))
   \<and> list_ex is_console_error (fetchTemplates [] (Resolved ''token'') (Rejected None))
   \<and> filter is_toast
       (handleBulkCopy (Some [acme_report])
          \<lparr>id_a = ''c2'', name = ''Globex'', type = ''client''\<rparr> (Resolved ''token'')
          (Rejected (Some 403) :: unit outcome) [] (Resolved ''token'') (Rejected None))
     = []"
  using failures_logged_toast_on_submit_only
    [where tk = "Resolved ''token''" and mo = "Rejected (Some 403) :: unit outcome"
       and oet = None and fd = "templateWithoutId acme_report" and eg = "[]"
       and ftk = "Resolved ''token''" and frs = "Rejected None"
       and ts = "[acme_report]" and tid = "''t1''" and cs = True and t = acme_report
       and sel = "[acme_report]"
       and c = "\<lparr>id_a = ''c2'', name = ''Globex'', type = ''client''\<rparr>"
       and grp = "[acme_report]" and adm = True and cf = True
       and osel = "Some [acme_report]"]
  by (simp add: first_failure_def rejected_def handleSubmit_def handleSubmit_catch_def)

section \<open>Assignee search\<close>

text \<open>
  \<^verbatim>\<open>searchAssignees\<close> (TaskTemplate/TaskTemplate.js line 105 and, with the same text,
  TaskManager/TaskTemplate.js line 79): the empty query clears the results, any
  other query is sent; \<^verbatim>\<open>response.data.assignees || []\<close> becomes the result list.
  The response is the value of \<^verbatim>\<open>response.data.assignees\<close>, \<open>None\<close> when it is missing.
\<close>

definition searchAssignees ::
  "string \<Rightarrow> string outcome \<Rightarrow> assignee list option outcome \<Rightarrow> action list" where
  "searchAssignees query tk response =
     (if query = [] then [SetSearchResults []]
      else case tk of
        Rejected e \<Rightarrow> [Console_error ''Error searching assignees:'']
      | Resolved token \<Rightarrow>
          Get_search_assignees token query #
          (case response of
             Rejected e \<Rightarrow> [Console_error ''Error searching assignees:'']
           | Resolved data_assignees \<Rightarrow>
               [SetSearchResults (case data_assignees of None \<Rightarrow> [] | Some as \<Rightarrow> as)]))"

text \<open>
  The change handler of the assignee field in TaskTemplate/TaskTemplate.js (line 121):
  \<^verbatim>\<open>setSearchQuery(query); searchAssignees(query);\<close>
\<close>

definition handleSearchChange ::
  "string \<Rightarrow> string outcome \<Rightarrow> assignee list option outcome \<Rightarrow> action list" where
  "handleSearchChange query tk response =
     SetSearchQuery query # searchAssignees query tk response"

text \<open>
  The change handler of the assignee field in TaskManager/TaskTemplate.js (line 247):
  \<^verbatim>\<open>
  setSearchQuery(e.target.value);
  if (e.target.value.length >= 2) { searchAssignees(e.target.value); }
  else { setSearchResults([]); }
  \<close>
\<close>

definition searchQuery_onChange ::
  "string \<Rightarrow> string outcome \<Rightarrow> assignee list option outcome \<Rightarrow> action list" where
  "searchQuery_onChange v tk response =
     SetSearchQuery v #
     (if length v \<ge> 2 then searchAssignees v tk response else [SetSearchResults []])"

text \<open>
  The client search of the bulk copy modal in TaskTemplate/TaskTemplate.js:
  \<^verbatim>\<open>searchClients\<close> (line 291) and the change handler of its field (line 675), which has
  the same gate.
\<close>

definition searchClients ::
  "string \<Rightarrow> string outcome \<Rightarrow> assignee list option outcome \<Rightarrow> action list" where
  "searchClients query tk response =
     (if query = [] then [SetNewClientSearchResults []]
      else case tk of
        Rejected e \<Rightarrow>
          [Console_error ''Error searching clients:'', SetNewClientSearchResults []]
      | Resolved token \<Rightarrow>
          Get_search_assignees token query #
          (case response of
             Rejected e \<Rightarrow>
               [Console_error ''Error searching clients:'', SetNewClientSearchResults []]
           | Resolved data_assignees \<Rightarrow>
               [SetNewClientSearchResults
                  (filter (\<lambda>a. type a = ''client'')
                     (case data_assignees of None \<Rightarrow> [] | Some as \<Rightarrow> as))]))"

definition newClientSearch_onChange ::
  "string \<Rightarrow> string outcome \<Rightarrow> assignee list option outcome \<Rightarrow> action list" where
  "newClientSearch_onChange v tk response =
     SetNewClientSearchQuery v #
     (if length v \<ge> 2 then searchClients v tk response
      else [SetNewClientSearchResults []])"

text \<open>The candidates on display after the effects: the last list that was set.\<close>

fun searchResults_after :: "assignee list \<Rightarrow> action list \<Rightarrow> assignee list" where
  "searchResults_after searchResults [] = searchResults"
| "searchResults_after searchResults (SetSearchResults rs # rest) =
     searchResults_after rs rest"
| "searchResults_after searchResults (_ # rest) = searchResults_after searchResults rest"

fun newClientSearchResults_after :: "assignee list \<Rightarrow> action list \<Rightarrow> assignee list" where
  "newClientSearchResults_after rs [] = rs"
| "newClientSearchResults_after rs (SetNewClientSearchResults rs' # rest) =
     newClientSearchResults_after rs' rest"
| "newClientSearchResults_after rs (_ # rest) = newClientSearchResults_after rs rest"

subsection \<open>Properties of the search\<close>

text \<open>
  The two gated fields send nothing for a query of fewer than two characters and
  show no candidates.
\<close>

lemma searchQuery_onChange_gated:
  assumes "length q < 2"
  shows "searchResults_after cur (searchQuery_onChange q tk rsp) = []
       \<and> filter is_search (searchQuery_onChange q tk rsp) = []"
  using assms by (simp add: searchQuery_onChange_def)

lemma newClientSearch_onChange_gated:
  assumes "length q < 2"
  shows "newClientSearchResults_after cur (newClientSearch_onChange q tk rsp) = []
       \<and> filter is_search (newClientSearch_onChange q tk rsp) = []"
  using assms by (simp add: newClientSearch_onChange_def)

lemma handleSearchChange_empty:
  "searchResults_after cur (handleSearchChange [] tk rsp) = []"
  by (simp add: handleSearchChange_def searchAssignees_def)

text \<open>
  C5. The assignee field of TaskTemplate/TaskTemplate.js has no such gate: for the
  query \<^verbatim>\<open>a\<close> of one character the request is sent and the candidates the server
  returns are shown.
\<close>

theorem handleSearchChange_one_character:
  "length ''a'' < 2
   \<and> handleSearchChange ''a'' (Resolved ''token'')
       (Resolved (Some [\<lparr>id_a = ''e1'', name = ''Ada'', type = ''employee''\<rparr>]))
     = [SetSearchQuery ''a'', Get_search_assignees ''token'' ''a'',
        SetSearchResults [\<lparr>id_a = ''e1'', name = ''Ada'', type = ''employee''\<rparr>]]
   \<and> searchResults_after []
       (handleSearchChange ''a'' (Resolved ''token'')
          (Resolved (Some [\<lparr>id_a = ''e1'', name = ''Ada'', type = ''employee''\<rparr>])))
     = [\<lparr>id_a = ''e1'', name = ''Ada'', type = ''employee''\<rparr>]"
  by (simp add: handleSearchChange_def searchAssignees_def)

section \<open>Completing a task\<close>

text \<open>
  \<^verbatim>\<open>handleComplete\<close> of the task modal (part_002 line 279):
  \<^verbatim>\<open>
  const totalHours = parseFloat(completionData.hours) || 0;
  const hours = Math.floor(totalHours);
  const minutesFromHours = Math.round((totalHours - hours) * 60);
  const totalMinutes = minutesFromHours + (parseInt(completionData.minutes) || 0);
  \<close>
  \<^verbatim>\<open>parseFloat\<close> of a number converts it to a string and back, which returns the
  number; \<^verbatim>\<open>parseInt\<close> of a number is \<open>parseInt_number\<close>. Every operator rounds its
  result to a double.
\<close>

definition totalHours :: "completionData \<Rightarrow> number" where
  "totalHours cd = or_zero (hours cd)"

definition minutesFromHours :: "completionData \<Rightarrow> number" where
  "minutesFromHours cd =
     Math_round (js_mul (js_sub (totalHours cd) (Math_floor (totalHours cd))) (Finite 60))"

definition totalMinutes :: "completionData \<Rightarrow> number" where
  "totalMinutes cd =
     js_add (minutesFromHours cd) (or_zero (parseInt_number (minutes cd)))"

text \<open>
  The entry: \<^verbatim>\<open>client_id\<close> is
  \<^verbatim>\<open>task.assignees?.find(a => a.type === 'client')?.client_id || ''\<close>, and \<open>today\<close> is the
  current date as \<^verbatim>\<open>YYYY-MM-DD\<close>.
\<close>

definition entry_client_id :: "task \<Rightarrow> string" where
  "entry_client_id t =
     (case assignees_task t of
        None \<Rightarrow> []
      | Some as \<Rightarrow>
          (case find (\<lambda>a. type a = ''client'') as of
             None \<Rightarrow> []
           | Some a \<Rightarrow> (case client_id a of None \<Rightarrow> [] | Some c \<Rightarrow> c)))"

definition timesheetEntry :: "completionData \<Rightarrow> task \<Rightarrow> string \<Rightarrow> timesheet_entry" where
  "timesheetEntry cd t today =
     \<lparr>date = today,
      client_id_entry = entry_client_id t,
      hours_entry = Math_floor (totalHours cd),
      minutes_entry = totalMinutes cd,
      type_entry = ''task'',
      item = id_task t,
      description_entry = ''Completed task: '' @ title_task t,
      category = ''Task Work''\<rparr>"

text \<open>
  The two writes and the callbacks; each failure ends the handler in its \<^verbatim>\<open>catch\<close>.
\<close>

definition handleComplete ::
  "completionData \<Rightarrow> task \<Rightarrow> string \<Rightarrow> string outcome \<Rightarrow> 'p outcome \<Rightarrow> 'q outcome \<Rightarrow>
   action list" where
  "handleComplete cd t today tk post_outcome put_outcome =
     (case tk of
        Rejected e \<Rightarrow> [Console_error ''Error completing task:'']
      | Resolved token \<Rightarrow>
          Post_timesheet token (timesheetEntry cd t today) #
          (case post_outcome of
             Rejected e \<Rightarrow> [Console_error ''Error completing task:'']
           | Resolved _ \<Rightarrow>
               Put_task token (id_task t)
                 (t\<lparr>status := ''complete'', completion_notes := Some (notes_cd cd)\<rparr>) #
               (case put_outcome of
                  Rejected e \<Rightarrow> [Console_error ''Error completing task:'']
                | Resolved _ \<Rightarrow>
                    [Console_log ''Task completed and timesheet entry created'',
                     OnSubmit (t\<lparr>status := ''complete''\<rparr>), OnClose])))"


subsection \<open>Properties of the completion flow\<close>

lemma handleComplete_posts:
  "filter is_post_timesheet (handleComplete cd t today (Resolved tok) po uo)
     = [Post_timesheet tok (timesheetEntry cd t today)]"
  by (simp add: handleComplete_def split: outcome.splits)

lemma frac_bounds: "0 \<le> h - of_int \<lfloor>h\<rfloor> \<and> h - of_int \<lfloor>h\<rfloor> < (1::rat)"
  by linarith

lemma round_frac_bounds:
  "0 \<le> round ((h - of_int \<lfloor>h\<rfloor>) * 60 :: rat) \<and> round ((h - of_int \<lfloor>h\<rfloor>) * 60 :: rat) \<le> 60"
proof -
  let ?f = "h - of_int \<lfloor>h\<rfloor>"
  have "0 \<le> ?f" "?f < 1" by linarith+
  then have "0 \<le> ?f * 60 + 1 / 2" "?f * 60 + 1 / 2 < 61" by simp_all
  then have "0 \<le> \<lfloor>?f * 60 + 1 / 2\<rfloor>" "\<lfloor>?f * 60 + 1 / 2\<rfloor> < 61"
    by (simp_all add: floor_less_iff)
  then show ?thesis by (simp add: round_def)
qed

text \<open>
  When the three floating-point results are exact, the entry follows the exact
  formula.
\<close>

lemma totalMinutes_exact:
  assumes h: "hours cd = Finite h" and m: "minutes cd = Whole_number m"
    and b: "\<bar>m\<bar> < 10 ^ 21"
    and r1: "representable (h - of_int \<lfloor>h\<rfloor>)"
    and r2: "representable ((h - of_int \<lfloor>h\<rfloor>) * 60)"
    and r3: "representable (of_int (round ((h - of_int \<lfloor>h\<rfloor>) * 60) + m))"
  shows "Math_floor (totalHours cd) = Finite (of_int \<lfloor>h\<rfloor>)"
    and "totalMinutes cd = Finite (of_int (round ((h - of_int \<lfloor>h\<rfloor>) * 60) + m))"
proof -
  let ?f = "h - of_int \<lfloor>h\<rfloor>"
  let ?r = "round (?f * 60)"
  have t: "totalHours cd = Finite h" by (simp add: totalHours_def h)
  show fl: "Math_floor (totalHours cd) = Finite (of_int \<lfloor>h\<rfloor>)" by (simp add: t)
  have fb: "0 \<le> ?f" "?f < 1" by linarith+
  have "\<bar>?f\<bar> < 2 ^ 1024" using fb by simp
  then have s: "js_sub (Finite h) (Finite (of_int \<lfloor>h\<rfloor>)) = Finite ?f"
    using round_number_exact [OF r1] by (simp add: js_sub_def)
  have "\<bar>?f * 60\<bar> < 2 ^ 1024" using fb by simp
  then have p: "js_mul (Finite ?f) (Finite 60) = Finite (?f * 60)"
    using round_number_exact [OF r2] by simp
  have mh: "minutesFromHours cd = Finite (of_int ?r)"
    by (simp only: minutesFromHours_def t Math_floor.simps s p Math_round.simps round_def)
  have rb: "0 \<le> ?r" "?r \<le> 60" using round_frac_bounds [of h] by simp_all
  have "\<bar>?r + m\<bar> < 10 ^ 21 + 61" using rb b by linarith
  also have "\<dots> < 2 ^ 1024" by simp
  finally have "\<bar>of_int (?r + m) :: rat\<bar> < 2 ^ 1024"
    by (metis of_int_abs of_int_less_numeral_power_cancel_iff)
  then have "round_number (of_int (?r + m)) = Finite (of_int (?r + m))"
    using round_number_exact [OF r3] by simp
  then show "totalMinutes cd = Finite (of_int (?r + m))"
    using b by (simp add: totalMinutes_def mh m)
qed

text \<open>
  They are exact for every hours input that is a multiple of 0.5 and every minutes
  input below \<open>2 ^ 52\<close> in magnitude.
\<close>

lemma half_frac:
  "(of_int k :: rat) / 2 - of_int \<lfloor>of_int k / 2 :: rat\<rfloor> = of_int (k mod 2) / 2"
proof -
  have fl2: "\<lfloor>of_int k / 2 :: rat\<rfloor> = k div 2"
    using floor_divide_of_int_eq [of k 2, where ?'a = rat] by simp
  have "k = 2 * (k div 2) + k mod 2" by simp
  then have "(of_int k :: rat) = 2 * of_int (k div 2) + of_int (k mod 2)"
    by (metis of_int_add of_int_mult of_int_numeral)
  then have "(of_int k :: rat) / 2 - of_int (k div 2) = of_int (k mod 2) / 2"
    by (simp add: field_simps)
  then show ?thesis by (simp only: fl2)
qed

lemma half_hours_exact:
  assumes "\<bar>m\<bar> < 2 ^ 52"
  shows "\<bar>m\<bar> < 10 ^ 21"
    and "representable ((of_int k :: rat) / 2 - of_int \<lfloor>of_int k / 2 :: rat\<rfloor>)"
    and "representable (((of_int k :: rat) / 2 - of_int \<lfloor>of_int k / 2 :: rat\<rfloor>) * 60)"
    and "representable
          (of_int (round (((of_int k :: rat) / 2 - of_int \<lfloor>of_int k / 2 :: rat\<rfloor>) * 60)
             + m))"
proof -
  show "\<bar>m\<bar> < 10 ^ 21" using assms by simp
  have rm: "representable (of_int m)" using assms by (simp add: representable_of_int)
  have "\<bar>30 + m\<bar> < 2 ^ 53" using assms by simp
  then have r30: "representable (of_int (30 + m))" by (rule representable_of_int)
  have c: "k mod 2 = 0 \<or> k mod 2 = 1" by fastforce
  have a1: "representable (of_int (k mod 2) / 2)"
    using c by (auto simp: representable_0 representable_half)
  have a2: "representable (of_int (k mod 2) / 2 * 60)"
    using c by (auto simp: representable_0 representable_30)
  have a3: "representable (of_int (round (of_int (k mod 2) / 2 * 60 :: rat) + m))"
    using c rm r30 by auto
  show "representable ((of_int k :: rat) / 2 - of_int \<lfloor>of_int k / 2 :: rat\<rfloor>)"
    by (simp only: half_frac a1)
  show "representable (((of_int k :: rat) / 2 - of_int \<lfloor>of_int k / 2 :: rat\<rfloor>) * 60)"
    by (simp only: half_frac a2)
  show "representable
          (of_int (round (((of_int k :: rat) / 2 - of_int \<lfloor>of_int k / 2 :: rat\<rfloor>) * 60)
             + m))"
    by (simp only: half_frac a3)
qed







text \<open>
  C10. The minutes of the entry are not carried into its hours. With the hours input
  0.5 and the minutes input 45, both inside the ranges of their controls and exact in
  floating point, the entry that is posted has hours 0 and minutes 75. The hours of
  the entry do not depend on the minutes input.
\<close>

theorem completion_minutes_not_normalised:
  "filter is_post_timesheet
       (handleComplete \<lparr>hours = Finite (1 / 2), minutes = Whole_number 45, notes_cd = n\<rparr>
          t today (Resolved tok) po uo)
     = [Post_timesheet tok
          (timesheetEntry \<lparr>hours = Finite (1 / 2), minutes = Whole_number 45, notes_cd = n\<rparr>
             t today)]
   \<and> hours_entry
       (timesheetEntry \<lparr>hours = Finite (1 / 2), minutes = Whole_number 45, notes_cd = n\<rparr>
          t today) = Finite 0
   \<and> minutes_entry
       (timesheetEntry \<lparr>hours = Finite (1 / 2), minutes = Whole_number 45, notes_cd = n\<rparr>
          t today) = Finite 75
   \<and> (60 :: rat) \<le> 75
   \<and> hours_entry (timesheetEntry (cd\<lparr>minutes := mm\<rparr>) t today)
     = hours_entry (timesheetEntry cd t today)"
proof -
  have b: "\<bar>45 :: int\<bar> < 2 ^ 52" by simp
  have "\<lfloor>1 / 2 :: rat\<rfloor> = 0" by (simp add: floor_eq_iff)
  moreover have "\<lfloor>61 / 2 :: rat\<rfloor> = 30" by (simp add: floor_eq_iff)
  moreover note totalMinutes_exact
    [of "\<lparr>hours = Finite (1 / 2), minutes = Whole_number 45, notes_cd = n\<rparr>" "1 / 2" 45]
    half_hours_exact(1) [OF b] half_hours_exact(2-4) [OF b, of 1]
  ultimately show ?thesis
    by (simp add: handleComplete_posts timesheetEntry_def totalHours_def round_def)
qed

end
